theory Spec2Isabelle
  imports
    Main
    "HOL-Library.List_Lexorder"
    "HOL-Library.Char_ord"
    "HOL-Library.Product_Lexorder"
    "HOL-Library.Multiset"
begin

section \<open>Data model\<close>

text \<open>
  The summary audit of \<^verbatim>\<open>ca_excel_summary.py\<close> reads pandas data frames and
  produces a list of report rows. A cell of a data frame is an integer, a string or a
  missing value (NaN); strings are ASCII text. A frame is a list of column labels with
  its rows; the labels of the input tables are pairwise distinct, every row has one cell
  per column, and a cell read beyond the end of a short row is missing.
\<close>

datatype cell = CInt int | CStr string | CNull

record frame =
  columns :: "string list"
  rows :: "cell list list"

text \<open>
  An input table is \<^verbatim>\<open>None\<close>, a data frame, or an object that is no data frame
  at all: inspecting the latter raises an exception, whose message it carries.
\<close>

datatype table = Absent | Broken string | Frame frame

text \<open>The \<^verbatim>\<open>Value\<close> field of a report row is a number or a string.\<close>

datatype val = VInt int | VStr string

record row =
  Category :: string
  SubCategory :: string
  Metric :: string
  Value :: val
  ExtraInfo :: string

record config =
  old_arfcn :: int
  new_arfcn :: int
  n77b_ssb :: int
  allowed_n77_ssb :: "int list option"
  allowed_n77_arfcn :: "int list option"

text \<open>
  The helpers of \<^verbatim>\<open>utils_frequency\<close> that parse and classify frequencies are
  parameters of the audit. So is the order in which Python iterates over a set, which
  depends on the hashes of its elements: \<open>set_iter\<close> and \<open>pair_iter\<close> turn the
  elements put into a set into the sequence an iteration over it yields.
\<close>

record env =
  parse_int_frequency :: "cell \<Rightarrow> int option"
  is_n77_from_string :: "cell \<Rightarrow> bool"
  extract_sync_frequencies :: "string \<Rightarrow> string list"
  set_iter :: "string list \<Rightarrow> string list"
  pair_iter :: "(string \<times> string) list \<Rightarrow> (string \<times> string) list"

definition valid_iter :: "('a list \<Rightarrow> 'a list) \<Rightarrow> bool" where
  "valid_iter it = (\<forall>xs. distinct (it xs) \<and> set (it xs) = set xs)"

definition valid_env :: "env \<Rightarrow> bool" where
  "valid_env e = (valid_iter (set_iter e) \<and> valid_iter (pair_iter e))"

section \<open>Strings\<close>

definition digit_char :: "nat \<Rightarrow> char" where
  "digit_char d = ''0123456789'' ! d"

fun string_of_nat :: "nat \<Rightarrow> string" where
  "string_of_nat n =
     (if n < 10 then [digit_char n] else string_of_nat (n div 10) @ [digit_char (n mod 10)])"

declare string_of_nat.simps [simp del]

text \<open>Python's \<^verbatim>\<open>str\<close> of an integer.\<close>

definition str_int :: "int \<Rightarrow> string" where
  "str_int i = (if i < 0 then ''-'' @ string_of_nat (nat (- i)) else string_of_nat (nat i))"

text \<open>\<^verbatim>\<open>str(v)\<close> and \<^verbatim>\<open>astype(str)\<close> of a cell.\<close>

fun py_str :: "cell \<Rightarrow> string" where
  "py_str (CInt i) = str_int i"
| "py_str (CStr s) = s"
| "py_str CNull = ''nan''"

text \<open>The ASCII characters that \<^verbatim>\<open>str.strip\<close> removes: the space and the codes 9 to 13 and 28 to 31.\<close>

definition is_space :: "char \<Rightarrow> bool" where
  "is_space c =
     (c \<in> {CHR '' '', CHR 0x09, CHR 0x0A, CHR 0x0B, CHR 0x0C, CHR 0x0D,
            CHR 0x1C, CHR 0x1D, CHR 0x1E, CHR 0x1F})"

definition py_strip :: "string \<Rightarrow> string" where
  "py_strip s = rev (dropWhile is_space (rev (dropWhile is_space s)))"

definition lower_char :: "char \<Rightarrow> char" where
  "lower_char c =
     (case map_of (zip ''ABCDEFGHIJKLMNOPQRSTUVWXYZ'' ''abcdefghijklmnopqrstuvwxyz'') c of
        Some l \<Rightarrow> l
      | None \<Rightarrow> c)"

definition py_lower :: "string \<Rightarrow> string" where
  "py_lower s = map lower_char s"

text \<open>\<^verbatim>\<open>sep.join(xs)\<close>.\<close>

fun join :: "string \<Rightarrow> string list \<Rightarrow> string" where
  "join sep [] = []"
| "join sep [x] = x"
| "join sep (x # y # ys) = x @ sep @ join sep (y # ys)"

section \<open>Data frame operations\<close>

text \<open>
  \<^verbatim>\<open>Series.unique\<close> and \<^verbatim>\<open>DataFrame.drop_duplicates\<close> keep the first
  occurrence of every value, in the order of appearance.
\<close>

fun unique_acc :: "'a list \<Rightarrow> 'a list \<Rightarrow> 'a list" where
  "unique_acc seen [] = []"
| "unique_acc seen (x # xs) =
     (if x \<in> set seen then unique_acc seen xs else x # unique_acc (x # seen) xs)"

definition unique :: "'a list \<Rightarrow> 'a list" where
  "unique xs = unique_acc [] xs"

text \<open>\<^verbatim>\<open>df.empty\<close>: one of the two axes has length 0.\<close>

definition empty_frame :: "frame \<Rightarrow> bool" where
  "empty_frame df = (columns df = [] \<or> rows df = [])"

text \<open>
  The guard \<^verbatim>\<open>df is not None and not df.empty\<close> at the head of every
  \<^verbatim>\<open>try\<close> block: it raises on an object that is no data frame, and selects
  between the table's checks and the "Table not found or empty" row otherwise.
\<close>

fun present :: "table \<Rightarrow> string + frame option" where
  "present Absent = Inr None"
| "present (Broken msg) = Inl msg"
| "present (Frame df) = Inr (if empty_frame df then None else Some df)"

fun index_of :: "'a \<Rightarrow> 'a list \<Rightarrow> nat" where
  "index_of a [] = 0"
| "index_of a (x # xs) = (if x = a then 0 else Suc (index_of a xs))"

definition cell_at :: "cell list \<Rightarrow> nat \<Rightarrow> cell" where
  "cell_at r i = (if i < length r then r ! i else CNull)"

text \<open>\<^verbatim>\<open>df[col]\<close>: the cells of a column, one per row.\<close>

definition col :: "frame \<Rightarrow> string \<Rightarrow> cell list" where
  "col df c = map (\<lambda>r. cell_at r (index_of c (columns df))) (rows df)"

text \<open>\<^verbatim>\<open>df[c] = df[c].map(g)\<close>, for a column of the frame.\<close>

definition map_col :: "(cell \<Rightarrow> cell) \<Rightarrow> string \<Rightarrow> frame \<Rightarrow> frame" where
  "map_col g c df =
     df\<lparr>rows := map (\<lambda>r. map (\<lambda>i. if i = index_of c (columns df) then g (cell_at r i) else cell_at r i)
                               [0 ..< length (columns df)]) (rows df)\<rparr>"

text \<open>
  \<^verbatim>\<open>df[c] = values\<close>: an existing column is overwritten in place, a new one is
  appended.
\<close>

definition set_col :: "string \<Rightarrow> cell list \<Rightarrow> frame \<Rightarrow> frame" where
  "set_col c vs df =
     (if c \<in> set (columns df)
      then df\<lparr>rows := map (\<lambda>(r, v). map (\<lambda>i. if i = index_of c (columns df) then v else cell_at r i)
                                         [0 ..< length (columns df)]) (zip (rows df) vs)\<rparr>
      else \<lparr>columns = columns df @ [c],
             rows = map (\<lambda>(r, v). map (cell_at r) [0 ..< length (columns df)] @ [v]) (zip (rows df) vs)\<rparr>)"

text \<open>\<^verbatim>\<open>df.loc[mask]\<close>, the mask given as a predicate on rows.\<close>

definition select_rows :: "(cell list \<Rightarrow> bool) \<Rightarrow> frame \<Rightarrow> frame" where
  "select_rows p df = df\<lparr>rows := filter p (rows df)\<rparr>"

text \<open>The columns \<open>cs\<close> of a frame, in the order of \<open>cs\<close>.\<close>

definition project :: "string list \<Rightarrow> frame \<Rightarrow> frame" where
  "project cs df =
     \<lparr>columns = cs, rows = map (\<lambda>r. map (\<lambda>c. cell_at r (index_of c (columns df))) cs) (rows df)\<rparr>"

text \<open>\<^verbatim>\<open>df.drop(columns=ignore, errors="ignore")\<close>.\<close>

definition drop_columns :: "string list \<Rightarrow> frame \<Rightarrow> frame" where
  "drop_columns ignore df = project (filter (\<lambda>c. c \<notin> set ignore) (columns df)) df"

text \<open>\<^verbatim>\<open>df.drop_duplicates().reset_index(drop=True)\<close>.\<close>

definition drop_duplicates :: "frame \<Rightarrow> frame" where
  "drop_duplicates df = df\<lparr>rows := unique (rows df)\<rparr>"

text \<open>\<^verbatim>\<open>df.reindex(sorted(df.columns), axis=1)\<close>.\<close>

definition sort_columns :: "frame \<Rightarrow> frame" where
  "sort_columns df = project (sort (columns df)) df"

text \<open>
  \<^verbatim>\<open>a.equals(b)\<close>: the same labels and the same cells at the same positions, a
  missing value being equal to a missing value. The frames compared in the audit are row
  subsets of one frame, so the types of their columns agree.
\<close>

definition frame_equals :: "frame \<Rightarrow> frame \<Rightarrow> bool" where
  "frame_equals a b = (columns a = columns b \<and> rows a = rows b)"

text \<open>
  \<^verbatim>\<open>work.groupby(node_col)[arfcn_col]\<close> on the pairs (key, value) of a two-column
  frame: the groups come in the order of their keys, each with its values in row order.
\<close>

definition groupby :: "(string \<times> cell) list \<Rightarrow> (string \<times> cell list) list" where
  "groupby kvs =
     map (\<lambda>k. (k, map snd (filter (\<lambda>kv. fst kv = k) kvs))) (sort (unique (map fst kvs)))"

text \<open>
  \<^verbatim>\<open>Series.value_counts(dropna=False)\<close>: every distinct value with the number of
  its occurrences, the largest count first, values of equal count in the order of their
  first occurrence.
\<close>

definition value_counts :: "'a list \<Rightarrow> ('a \<times> nat) list" where
  "value_counts xs =
     sort_key (\<lambda>p. - int (snd p)) (map (\<lambda>v. (v, count_list xs v)) (unique xs))"

text \<open>
  \<^verbatim>\<open>sorted(s)\<close> for a Python set \<open>s\<close> holding the elements \<open>xs\<close>: the
  iteration over the set, sorted.
\<close>

definition sorted_set :: "env \<Rightarrow> string list \<Rightarrow> string list" where
  "sorted_set e xs = sort (set_iter e xs)"

definition sorted_pair_set :: "env \<Rightarrow> (string \<times> string) list \<Rightarrow> (string \<times> string) list" where
  "sorted_pair_set e xs = sort (pair_iter e xs)"

text \<open>
  Modelled from the spec: \<^verbatim>\<open>resolve_column_case_insensitive\<close> of
  \<^verbatim>\<open>utils_frequency\<close>, which is not among the sources. The candidate names are
  tried in order; a candidate matches a column label that equals it up to case, and the
  first match is returned as the table spells it.
\<close>

fun resolve_column_case_insensitive :: "frame \<Rightarrow> string list \<Rightarrow> string option" where
  "resolve_column_case_insensitive df [] = None"
| "resolve_column_case_insensitive df (cand # cands) =
     (case find (\<lambda>c. py_lower c = py_lower cand) (columns df) of
        Some c \<Rightarrow> Some c
      | None \<Rightarrow> resolve_column_case_insensitive df cands)"

text \<open>Python's truth value of a resolved column: \<^verbatim>\<open>None\<close> and the empty label are false.\<close>

fun truthy :: "string option \<Rightarrow> bool" where
  "truthy None = False"
| "truthy (Some c) = (c \<noteq> [])"

section \<open>Frequency predicates of the audit\<close>

text \<open>
  \<^verbatim>\<open>{int(v) for v in (allowed_n77_ssb or [])}\<close>: the configured values are
  integers, which \<^verbatim>\<open>int\<close> leaves as they are; \<^verbatim>\<open>None\<close> and an empty collection
  give the empty set.
\<close>

definition allowed_n77_ssb_set :: "config \<Rightarrow> int set" where
  "allowed_n77_ssb_set cfg = set (case allowed_n77_ssb cfg of None \<Rightarrow> [] | Some vs \<Rightarrow> vs)"

definition allowed_n77_arfcn_set :: "config \<Rightarrow> int set" where
  "allowed_n77_arfcn_set cfg = set (case allowed_n77_arfcn cfg of None \<Rightarrow> [] | Some vs \<Rightarrow> vs)"

definition is_not_old_not_new :: "env \<Rightarrow> config \<Rightarrow> cell \<Rightarrow> bool" where
  "is_not_old_not_new e cfg v =
     (let freq = parse_int_frequency e v
      in freq \<noteq> Some (old_arfcn cfg) \<and> freq \<noteq> Some (new_arfcn cfg))"

definition series_only_not_old_not_new :: "env \<Rightarrow> config \<Rightarrow> cell list \<Rightarrow> bool" where
  "series_only_not_old_not_new e cfg series = list_all (is_not_old_not_new e cfg) series"

definition is_new :: "env \<Rightarrow> config \<Rightarrow> cell \<Rightarrow> bool" where
  "is_new e cfg v = (let freq = parse_int_frequency e v in freq = Some (new_arfcn cfg))"

definition is_old :: "env \<Rightarrow> config \<Rightarrow> cell \<Rightarrow> bool" where
  "is_old e cfg v = (let freq = parse_int_frequency e v in freq = Some (old_arfcn cfg))"

definition has_value :: "env \<Rightarrow> cell \<Rightarrow> bool" where
  "has_value e v = (let freq = parse_int_frequency e v in freq \<noteq> None)"

definition is_allowed_n77_ssb :: "env \<Rightarrow> config \<Rightarrow> cell \<Rightarrow> bool" where
  "is_allowed_n77_ssb e cfg v =
     (case parse_int_frequency e v of None \<Rightarrow> False | Some freq \<Rightarrow> freq \<in> allowed_n77_ssb_set cfg)"

definition is_allowed_n77_arfcn :: "env \<Rightarrow> config \<Rightarrow> cell \<Rightarrow> bool" where
  "is_allowed_n77_arfcn e cfg v =
     (case parse_int_frequency e v of None \<Rightarrow> False | Some freq \<Rightarrow> freq \<in> allowed_n77_arfcn_set cfg)"

definition add_row :: "string \<Rightarrow> string \<Rightarrow> string \<Rightarrow> val \<Rightarrow> string \<Rightarrow> row" where
  "add_row category subcategory metric val extra =
     \<lparr>Category = category, SubCategory = subcategory, Metric = metric, Value = val,
      ExtraInfo = extra\<rparr>"

section \<open>Node lists shared by the frequency checkers\<close>

text \<open>
  The comprehensions over the groups of a \<^verbatim>\<open>groupby\<close>, which the checkers of
  NRFrequency, NRFreqRelation, GUtranSyncSignalFrequency and GUtranFreqRelation repeat:
  \<^verbatim>\<open>sorted(str(node) for node, series in grouped if any(is_old(v) for v in series))\<close>
  and its siblings, and the two set operations on their results.
\<close>

definition old_nodes_of :: "env \<Rightarrow> config \<Rightarrow> (string \<times> cell list) list \<Rightarrow> string list" where
  "old_nodes_of e cfg grouped =
     sort (map fst (filter (\<lambda>g. list_ex (is_old e cfg) (snd g)) grouped))"

definition new_nodes_of :: "env \<Rightarrow> config \<Rightarrow> (string \<times> cell list) list \<Rightarrow> string list" where
  "new_nodes_of e cfg grouped =
     sort (map fst (filter (\<lambda>g. list_ex (is_new e cfg) (snd g)) grouped))"

definition not_old_not_new_nodes_of :: "env \<Rightarrow> config \<Rightarrow> (string \<times> cell list) list \<Rightarrow> string list" where
  "not_old_not_new_nodes_of e cfg grouped =
     sort (map fst (filter (\<lambda>g. series_only_not_old_not_new e cfg (snd g)) grouped))"

text \<open>\<^verbatim>\<open>sorted(old_set & new_set)\<close> and \<^verbatim>\<open>sorted(old_set - new_set)\<close>.\<close>

definition sorted_inter :: "env \<Rightarrow> string list \<Rightarrow> string list \<Rightarrow> string list" where
  "sorted_inter e old_nodes new_nodes = sorted_set e (filter (\<lambda>n. n \<in> set new_nodes) old_nodes)"

definition sorted_diff :: "env \<Rightarrow> string list \<Rightarrow> string list \<Rightarrow> string list" where
  "sorted_diff e old_nodes new_nodes = sorted_set e (filter (\<lambda>n. n \<notin> set new_nodes) old_nodes)"

definition len :: "'a list \<Rightarrow> val" where
  "len xs = VInt (int (length xs))"

section \<open>NRFrequency\<close>

definition nr_freq_rows :: "env \<Rightarrow> config \<Rightarrow> frame \<Rightarrow> string \<Rightarrow> string \<Rightarrow> row list" where
  "nr_freq_rows e cfg df node_col arfcn_col =
     (let work = zip (map py_str (col df node_col)) (col df arfcn_col);
          n77_work = filter (\<lambda>w. is_n77_from_string e (snd w)) work
      in if n77_work \<noteq> [] then
           (let grouped = groupby n77_work;
                all_nodes_with_freq =
                  sort (unique (map fst (filter (\<lambda>w. has_value e (snd w)) work)));
                old_nodes = old_nodes_of e cfg grouped;
                new_nodes = new_nodes_of e cfg grouped;
                nodes_old_and_new = sorted_inter e old_nodes new_nodes;
                nodes_old_without_new = sorted_diff e old_nodes new_nodes;
                not_old_not_new_nodes = not_old_not_new_nodes_of e cfg grouped
            in [add_row ''NR Frequency Audit'' ''NRFrequency''
                  ''NR nodes with ARFCN defined in NRFrequency''
                  (len all_nodes_with_freq) (join '', '' all_nodes_with_freq),
                add_row ''NR Frequency Audit'' ''NRFrequency''
                  (''NR nodes with the old ARFCN ('' @ str_int (old_arfcn cfg) @ '') in NRFrequency'')
                  (len old_nodes) (join '', '' old_nodes),
                add_row ''NR Frequency Audit'' ''NRFrequency''
                  (''NR nodes with the new ARFCN ('' @ str_int (new_arfcn cfg) @ '') in NRFrequency'')
                  (len new_nodes) (join '', '' new_nodes),
                add_row ''NR Frequency Audit'' ''NRFrequency''
                  (''NR nodes with both, the old ARFCN ('' @ str_int (old_arfcn cfg)
                     @ '') and the new ARFCN ('' @ str_int (new_arfcn cfg) @ '') in NRFrequency'')
                  (len nodes_old_and_new) (join '', '' nodes_old_and_new),
                add_row ''NR Frequency Inconsistencies'' ''NRFrequency''
                  (''NR nodes with the old ARFCN ('' @ str_int (old_arfcn cfg)
                     @ '') but without the new ARFCN ('' @ str_int (new_arfcn cfg) @ '') in NRFrequency'')
                  (len nodes_old_without_new) (join '', '' nodes_old_without_new),
                add_row ''NR Frequency Inconsistencies'' ''NRFrequency''
                  (''NR nodes with the ARFCN not in ('' @ str_int (old_arfcn cfg) @ '', ''
                     @ str_int (new_arfcn cfg) @ '') in NRFrequency'')
                  (len not_old_not_new_nodes) (join '', '' not_old_not_new_nodes)])
         else
           [add_row ''NR Frequency Audit'' ''NRFrequency'' ''NRFrequency table has no N77 rows''
              (VInt 0) ''''])"

definition process_nr_freq :: "env \<Rightarrow> config \<Rightarrow> table \<Rightarrow> row list" where
  "process_nr_freq e cfg df_nr_freq =
     (case present df_nr_freq of
        Inl ex \<Rightarrow>
          [add_row ''NR Frequency Audit'' ''NRFrequency'' ''Error while checking NRFrequency''
             (VStr (''ERROR: '' @ ex)) '''']
      | Inr None \<Rightarrow>
          [add_row ''NR Frequency Audit'' ''NRFrequency'' ''NRFrequency table''
             (VStr ''Table not found or empty'') '''']
      | Inr (Some df) \<Rightarrow>
          (let node_col = resolve_column_case_insensitive df [''NodeId''];
               arfcn_col = resolve_column_case_insensitive df
                             [''arfcnValueNRDl'', ''NRFrequencyId'', ''nRFrequencyId'']
           in if truthy node_col \<and> truthy arfcn_col
              then nr_freq_rows e cfg df (the node_col) (the arfcn_col)
              else [add_row ''NR Frequency Audit'' ''NRFrequency''
                      ''NRFrequency table present but required columns missing'' (VStr ''N/A'') '''']))"

section \<open>NRFreqRelation\<close>

fun int_cell :: "int option \<Rightarrow> cell" where
  "int_cell None = CNull"
| "int_cell (Some i) = CInt i"

definition astype_str :: "string \<Rightarrow> frame \<Rightarrow> frame" where
  "astype_str c df = map_col (\<lambda>v. CStr (py_str v)) c df"

text \<open>The rows of a frame whose column \<open>c\<close> holds the cell \<open>v\<close>.\<close>

definition rows_where :: "string \<Rightarrow> cell \<Rightarrow> frame \<Rightarrow> frame" where
  "rows_where c v df = select_rows (\<lambda>r. cell_at r (index_of c (columns df)) = v) df"

text \<open>
  The frame \<^verbatim>\<open>full_n77\<close> of the cell-level check: the N77 rows of the table with
  the node and cell identifiers as strings and the parsed relation identifier in the
  added column \<^verbatim>\<open>_arfcn_int_\<close>.
\<close>

definition nr_full_n77 :: "env \<Rightarrow> frame \<Rightarrow> string \<Rightarrow> string \<Rightarrow> string \<Rightarrow> frame" where
  "nr_full_n77 e df node_col arfcn_col cell_col =
     (let full = astype_str cell_col (astype_str node_col df);
          n77 = select_rows
                  (\<lambda>r. is_n77_from_string e (cell_at r (index_of arfcn_col (columns full)))) full
      in set_col ''_arfcn_int_'' (map (\<lambda>v. int_cell (parse_int_frequency e v)) (col n77 arfcn_col)) n77)"

definition nr_cols_to_ignore :: "frame \<Rightarrow> string \<Rightarrow> string list" where
  "nr_cols_to_ignore full_n77 arfcn_col =
     arfcn_col # filter (\<lambda>name. py_lower name \<in> {''nrfreqrelationid'', ''nrfrequencyref'', ''reservedby''})
                   (columns full_n77)"

definition clean :: "string list \<Rightarrow> frame \<Rightarrow> frame" where
  "clean cols_to_ignore rs = sort_columns (drop_duplicates (drop_columns cols_to_ignore rs))"

text \<open>The body of the loop over \<^verbatim>\<open>cells_both\<close>: is the cell appended to \<^verbatim>\<open>bad_cells_params\<close>?\<close>

definition nr_param_mismatch :: "config \<Rightarrow> frame \<Rightarrow> string \<Rightarrow> string list \<Rightarrow> string \<Rightarrow> bool" where
  "nr_param_mismatch cfg full_n77 cell_col cols_to_ignore cell_id =
     (let cell_rows = select_rows
                        (\<lambda>r. py_str (cell_at r (index_of cell_col (columns full_n77))) = cell_id) full_n77;
          old_rows = rows_where ''_arfcn_int_'' (CInt (old_arfcn cfg)) cell_rows;
          new_rows = rows_where ''_arfcn_int_'' (CInt (new_arfcn cfg)) cell_rows
      in if empty_frame old_rows \<or> empty_frame new_rows then False
         else \<not> frame_equals (clean cols_to_ignore old_rows) (clean cols_to_ignore new_rows))"

definition nr_freq_rel_cell_rows :: "env \<Rightarrow> config \<Rightarrow> frame \<Rightarrow> string \<Rightarrow> string \<Rightarrow> row list" where
  "nr_freq_rel_cell_rows e cfg df node_col arfcn_col =
     (let cell_col = resolve_column_case_insensitive df [''NRCellCUId'', ''NRCellId'', ''CellId'']
      in if truthy cell_col then
           (let full_n77 = nr_full_n77 e df node_col arfcn_col (the cell_col);
                cells_with_old =
                  map py_str (col (rows_where ''_arfcn_int_'' (CInt (old_arfcn cfg)) full_n77) (the cell_col));
                cells_with_new =
                  map py_str (col (rows_where ''_arfcn_int_'' (CInt (new_arfcn cfg)) full_n77) (the cell_col));
                cells_both = sorted_inter e cells_with_old cells_with_new;
                cells_old_without_new = sorted_diff e cells_with_old cells_with_new;
                cols_to_ignore = nr_cols_to_ignore full_n77 arfcn_col;
                bad_cells_params =
                  sorted_set e
                    (filter (nr_param_mismatch cfg full_n77 (the cell_col) cols_to_ignore) cells_both)
            in [add_row ''NR Frequency Audit'' ''NRFreqRelation''
                  (''NR cells with the old ARFCN ('' @ str_int (old_arfcn cfg)
                     @ '') and the new ARFCN ('' @ str_int (new_arfcn cfg) @ '') in NRFreqRelation'')
                  (len cells_both) (join '', '' cells_both),
                add_row ''NR Frequency Inconsistencies'' ''NRFreqRelation''
                  (''NR cells with the old ARFCN ('' @ str_int (old_arfcn cfg)
                     @ '') but without new ARFCN ('' @ str_int (new_arfcn cfg) @ '') in NRFreqRelation'')
                  (len cells_old_without_new) (join '', '' cells_old_without_new),
                add_row ''NR Frequency Inconsistencies'' ''NRFreqRelation''
                  (''NR cells with mismatching params between old ARFCN ('' @ str_int (old_arfcn cfg)
                     @ '') and the new ARFCN ('' @ str_int (new_arfcn cfg) @ '') in NRFreqRelation'')
                  (len bad_cells_params) (join '', '' bad_cells_params)])
         else
           [add_row ''NR Frequency Audit'' ''NRFreqRelation''
              ''NRFreqRelation cell-level check skipped (NRCellCUId/NRCellId/CellId missing)''
              (VStr ''N/A'') ''''])"

text \<open>The groups of the N77 rows of NRFreqRelation, and the rows of its node-level counts.\<close>

definition nr_freq_rel_n77_work :: "env \<Rightarrow> frame \<Rightarrow> string \<Rightarrow> string \<Rightarrow> (string \<times> cell) list" where
  "nr_freq_rel_n77_work e df node_col arfcn_col =
     filter (\<lambda>w. is_n77_from_string e (snd w)) (zip (map py_str (col df node_col)) (col df arfcn_col))"

definition nr_freq_rel_node_rows :: "env \<Rightarrow> config \<Rightarrow> (string \<times> cell list) list \<Rightarrow> row list" where
  "nr_freq_rel_node_rows e cfg grouped =
     (let old_nodes = old_nodes_of e cfg grouped;
          new_nodes = new_nodes_of e cfg grouped;
          nodes_old_and_new = sorted_inter e old_nodes new_nodes;
          nodes_old_without_new = sorted_diff e old_nodes new_nodes;
          not_old_not_new_nodes = not_old_not_new_nodes_of e cfg grouped
      in [add_row ''NR Frequency Audit'' ''NRFreqRelation''
            (''NR nodes with the old ARFCN ('' @ str_int (old_arfcn cfg) @ '') in NRFreqRelation'')
            (len old_nodes) (join '', '' old_nodes),
          add_row ''NR Frequency Audit'' ''NRFreqRelation''
            (''NR nodes with the new ARFCN ('' @ str_int (new_arfcn cfg) @ '') in NRFreqRelation'')
            (len new_nodes) (join '', '' new_nodes),
          add_row ''NR Frequency Audit'' ''NRFreqRelation''
            (''NR nodes with both, the old ARFCN ('' @ str_int (old_arfcn cfg)
               @ '') and the new ARFCN ('' @ str_int (new_arfcn cfg) @ '') in NRFreqRelation'')
            (len nodes_old_and_new) (join '', '' nodes_old_and_new),
          add_row ''NR Frequency Inconsistencies'' ''NRFreqRelation''
            (''NR nodes with the old ARFCN ('' @ str_int (old_arfcn cfg)
               @ '') but without the new ARFCN ('' @ str_int (new_arfcn cfg) @ '') in NRFreqRelation'')
            (len nodes_old_without_new) (join '', '' nodes_old_without_new),
          add_row ''NR Frequency Inconsistencies'' ''NRFreqRelation''
            (''NR nodes with the ARFCN not in ('' @ str_int (old_arfcn cfg) @ '', ''
               @ str_int (new_arfcn cfg) @ '') in NRFreqRelation'')
            (len not_old_not_new_nodes) (join '', '' not_old_not_new_nodes)])"

definition nr_freq_rel_rows :: "env \<Rightarrow> config \<Rightarrow> frame \<Rightarrow> string \<Rightarrow> string \<Rightarrow> row list" where
  "nr_freq_rel_rows e cfg df node_col arfcn_col =
     (let n77_work = nr_freq_rel_n77_work e df node_col arfcn_col
      in if n77_work \<noteq> [] then
           nr_freq_rel_node_rows e cfg (groupby n77_work)
             @ nr_freq_rel_cell_rows e cfg df node_col arfcn_col
         else
           [add_row ''NR Frequency Audit'' ''NRFreqRelation'' ''NRFreqRelation table has no N77 rows''
              (VInt 0) ''''])"

definition process_nr_freq_rel :: "env \<Rightarrow> config \<Rightarrow> table \<Rightarrow> row list" where
  "process_nr_freq_rel e cfg df_nr_freq_rel =
     (case present df_nr_freq_rel of
        Inl ex \<Rightarrow>
          [add_row ''NR Frequency Audit'' ''NRFreqRelation'' ''Error while checking NRFreqRelation''
             (VStr (''ERROR: '' @ ex)) '''']
      | Inr None \<Rightarrow>
          [add_row ''NR Frequency Audit'' ''NRFreqRelation'' ''NRFreqRelation table''
             (VStr ''Table not found or empty'') '''']
      | Inr (Some df) \<Rightarrow>
          (let node_col = resolve_column_case_insensitive df [''NodeId''];
               arfcn_col = resolve_column_case_insensitive df [''NRFreqRelationId'']
           in if truthy node_col \<and> truthy arfcn_col
              then nr_freq_rel_rows e cfg df (the node_col) (the arfcn_col)
              else [add_row ''NR Frequency Audit'' ''NRFreqRelation''
                      ''NRFreqRelation table present but ARFCN/NodeId missing'' (VStr ''N/A'') '''']))"

section \<open>NRSectorCarrier\<close>

definition nr_sector_carrier_rows :: "env \<Rightarrow> config \<Rightarrow> frame \<Rightarrow> string \<Rightarrow> string \<Rightarrow> row list" where
  "nr_sector_carrier_rows e cfg df node_col arfcn_col =
     (let work = zip (map (\<lambda>v. py_strip (py_str v)) (col df node_col)) (col df arfcn_col);
          n77_rows = filter (\<lambda>w. is_n77_from_string e (snd w)) work;
          n77_nodes = sort (unique (map fst n77_rows))
      in add_row ''NR Frequency Audit'' ''NRSectorCarrier''
           ''NR nodes with ARFCN in N77 band (646600-660000) in NRSectorCarrier''
           (len n77_nodes) (join '', '' n77_nodes)
         # (if allowed_n77_arfcn_set cfg \<noteq> {} then
              (let bad_rows = filter (\<lambda>w. \<not> is_allowed_n77_arfcn e cfg (snd w)) n77_rows;
                   bad_nodes = sort (unique (map fst bad_rows));
                   unique_pairs =
                     sorted_pair_set e
                       (map (\<lambda>w. (py_strip (fst w), py_strip (py_str (snd w)))) bad_rows);
                   extra = join ''; '' (map (\<lambda>(node, arfcn). node @ '': '' @ arfcn) unique_pairs)
               in [add_row ''NR Frequency Inconsistencies'' ''NRSectorCarrier''
                     ''NR nodes with ARFCN not in allowed list (from NRSectorCarrier table)''
                     (len bad_nodes) extra])
            else
              [add_row ''NR Frequency Inconsistencies'' ''NRSectorCarrier''
                 ''NR nodes with ARFCN not in allowed list (no allowed list configured)''
                 (VStr ''N/A'') '''']))"

definition process_nr_sector_carrier :: "env \<Rightarrow> config \<Rightarrow> table \<Rightarrow> row list" where
  "process_nr_sector_carrier e cfg df_nr_sector_carrier =
     (case present df_nr_sector_carrier of
        Inl ex \<Rightarrow>
          [add_row ''NR Frequency Audit'' ''NRSectorCarrier'' ''Error while checking NRSectorCarrier''
             (VStr (''ERROR: '' @ ex)) '''']
      | Inr None \<Rightarrow>
          [add_row ''NR Frequency Audit'' ''NRSectorCarrier'' ''NRSectorCarrier table''
             (VStr ''Table not found or empty'') '''']
      | Inr (Some df) \<Rightarrow>
          (let node_col = resolve_column_case_insensitive df [''NodeId''];
               arfcn_col = resolve_column_case_insensitive df [''arfcnDL'']
           in if truthy node_col \<and> truthy arfcn_col
              then nr_sector_carrier_rows e cfg df (the node_col) (the arfcn_col)
              else [add_row ''NR Frequency Audit'' ''NRSectorCarrier''
                      ''NRSectorCarrier table present but required columns missing''
                      (VStr ''N/A'') '''']))"

section \<open>NRCellDU\<close>

definition nr_cell_du_rows :: "env \<Rightarrow> frame \<Rightarrow> string \<Rightarrow> string \<Rightarrow> row list" where
  "nr_cell_du_rows e df node_col ssb_col =
     (let work = zip (map (\<lambda>v. py_strip (py_str v)) (col df node_col)) (col df ssb_col);
          unique_nodes = sort (unique (map fst (filter (\<lambda>w. is_n77_from_string e (snd w)) work)))
      in [add_row ''NR Frequency Audit'' ''NRCellDU''
            ''NR nodes with SSB in N77 band (646600-660000) in NRCellDU''
            (len unique_nodes) (join '', '' unique_nodes)])"

definition process_nr_cell_du :: "env \<Rightarrow> config \<Rightarrow> table \<Rightarrow> row list" where
  "process_nr_cell_du e cfg df_nr_cell_du =
     (case present df_nr_cell_du of
        Inl ex \<Rightarrow>
          [add_row ''NR Frequency Audit'' ''NRCellDU'' ''Error while checking NRCellDU''
             (VStr (''ERROR: '' @ ex)) '''']
      | Inr None \<Rightarrow>
          [add_row ''NR Frequency Audit'' ''NRCellDU'' ''NRCellDU table''
             (VStr ''Table not found or empty'') '''']
      | Inr (Some df) \<Rightarrow>
          (let node_col = resolve_column_case_insensitive df [''NodeId''];
               ssb_col = resolve_column_case_insensitive df [''ssbFrequency'']
           in if truthy node_col \<and> truthy ssb_col
              then nr_cell_du_rows e df (the node_col) (the ssb_col)
              else [add_row ''NR Frequency Audit'' ''NRCellDU''
                      ''NRCellDU table present but required columns missing'' (VStr ''N/A'') '''']))"

section \<open>FreqPrioNR\<close>

definition freq_prio_nr_rows :: "env \<Rightarrow> frame \<Rightarrow> string \<Rightarrow> string \<Rightarrow> string \<Rightarrow> row list" where
  "freq_prio_nr_rows e df node_col freq_col ratfreqprio_col =
     (let work = zip (map (\<lambda>v. py_strip (py_str v)) (col df node_col))
                   (zip (col df freq_col)
                      (map (\<lambda>v. py_lower (py_strip (py_str v))) (col df ratfreqprio_col)));
          n77_work = filter (\<lambda>w. is_n77_from_string e (fst (snd w))) work
      in if n77_work \<noteq> [] then
           (let fwa_nodes =
                  sort (unique (map fst (filter (\<lambda>w. snd (snd w) = ''fwa'') n77_work)));
                publicsafety_nodes =
                  sort (unique (map fst (filter (\<lambda>w. snd (snd w) = ''publicsafety'') n77_work)));
                other_nodes =
                  sort (unique (map fst
                    (filter (\<lambda>w. \<not> (snd (snd w) = ''fwa'' \<or> snd (snd w) = ''publicsafety'')) n77_work)))
            in [add_row ''NR Frequency Audit'' ''FreqPrioNR''
                  ''NR nodes with RATFreqPrioId = 'fwa' in N77 FreqPrioNR''
                  (len fwa_nodes) (join '', '' fwa_nodes),
                add_row ''NR Frequency Audit'' ''FreqPrioNR''
                  ''NR nodes with RATFreqPrioId = 'publicsafety' in N77 FreqPrioNR''
                  (len publicsafety_nodes) (join '', '' publicsafety_nodes),
                add_row ''NR Frequency Inconsistencies'' ''FreqPrioNR''
                  ''NR nodes with RATFreqPrioId different from 'fwa'/'publicsafety' in N77 FreqPrioNR''
                  (len other_nodes) (join '', '' other_nodes)])
         else
           [add_row ''NR Frequency Audit'' ''FreqPrioNR''
              ''FreqPrioNR table has no N77 rows (based on FreqPrioNRId)'' (VInt 0) ''''])"

definition process_freq_prio_nr :: "env \<Rightarrow> config \<Rightarrow> table \<Rightarrow> row list" where
  "process_freq_prio_nr e cfg df_freq_prio_nr =
     (case present df_freq_prio_nr of
        Inl ex \<Rightarrow>
          [add_row ''NR Frequency Audit'' ''FreqPrioNR'' ''Error while checking FreqPrioNR''
             (VStr (''ERROR: '' @ ex)) '''']
      | Inr None \<Rightarrow>
          [add_row ''NR Frequency Audit'' ''FreqPrioNR'' ''FreqPrioNR table''
             (VStr ''Table not found or empty'') '''']
      | Inr (Some df) \<Rightarrow>
          (let node_col = resolve_column_case_insensitive df [''NodeId''];
               freq_col = resolve_column_case_insensitive df [''FreqPrioNRId''];
               ratfreqprio_col = resolve_column_case_insensitive df [''RATFreqPrioId'']
           in if truthy node_col \<and> truthy freq_col \<and> truthy ratfreqprio_col
              then freq_prio_nr_rows e df (the node_col) (the freq_col) (the ratfreqprio_col)
              else [add_row ''NR Frequency Audit'' ''FreqPrioNR''
                      ''FreqPrioNR table present but NodeId/FreqPrioNRId/RATFreqPrioId missing''
                      (VStr ''N/A'') '''']))"

section \<open>GUtranSyncSignalFrequency\<close>

definition gu_sync_signal_freq_rows :: "env \<Rightarrow> config \<Rightarrow> frame \<Rightarrow> string \<Rightarrow> string \<Rightarrow> row list" where
  "gu_sync_signal_freq_rows e cfg df node_col arfcn_col =
     (let work = zip (map py_str (col df node_col)) (col df arfcn_col);
          all_nodes_with_freq = sort (unique (map fst (filter (\<lambda>w. has_value e (snd w)) work)));
          grouped = groupby work;
          old_nodes = old_nodes_of e cfg grouped;
          new_nodes = new_nodes_of e cfg grouped;
          nodes_old_and_new = sorted_inter e old_nodes new_nodes;
          nodes_old_without_new = sorted_diff e old_nodes new_nodes;
          not_old_not_new_nodes = not_old_not_new_nodes_of e cfg grouped
      in [add_row ''LTE Frequency Audit'' ''GUtranSyncSignalFrequency''
            ''LTE nodes with GUtranSyncSignalFrequency defined:''
            (len all_nodes_with_freq) (join '', '' all_nodes_with_freq),
          add_row ''LTE Frequency Audit'' ''GUtranSyncSignalFrequency''
            (''LTE nodes with the old ARFCN ('' @ str_int (old_arfcn cfg)
               @ '') in GUtranSyncSignalFrequency'')
            (len old_nodes) (join '', '' old_nodes),
          add_row ''LTE Frequency Audit'' ''GUtranSyncSignalFrequency''
            (''LTE nodes with the new ARFCN ('' @ str_int (new_arfcn cfg)
               @ '') in GUtranSyncSignalFrequency'')
            (len new_nodes) (join '', '' new_nodes),
          add_row ''LTE Frequency Audit'' ''GUtranSyncSignalFrequency''
            (''LTE nodes with both, the old ARFCN ('' @ str_int (old_arfcn cfg)
               @ '') and the new ARFCN ('' @ str_int (new_arfcn cfg)
               @ '') in GUtranSyncSignalFrequency'')
            (len nodes_old_and_new) (join '', '' nodes_old_and_new),
          add_row ''LTE Frequency Inconsistences'' ''GUtranSyncSignalFrequency''
            (''LTE nodes with the old ARFCN ('' @ str_int (old_arfcn cfg)
               @ '') but without the new ARFCN ('' @ str_int (new_arfcn cfg)
               @ '') in GUtranSyncSignalFrequency'')
            (len nodes_old_without_new) (join '', '' nodes_old_without_new),
          add_row ''LTE Frequency Inconsistences'' ''GUtranSyncSignalFrequency''
            (''LTE nodes with the ARFCN not in ('' @ str_int (old_arfcn cfg) @ '', ''
               @ str_int (new_arfcn cfg) @ '') in GUtranSyncSignalFrequency'')
            (len not_old_not_new_nodes) (join '', '' not_old_not_new_nodes)])"

definition process_gu_sync_signal_freq :: "env \<Rightarrow> config \<Rightarrow> table \<Rightarrow> row list" where
  "process_gu_sync_signal_freq e cfg df_gu_sync_signal_freq =
     (case present df_gu_sync_signal_freq of
        Inl ex \<Rightarrow>
          [add_row ''LTE Frequency Audit'' ''GUtranSyncSignalFrequency''
             ''Error while checking GUtranSyncSignalFrequency'' (VStr (''ERROR: '' @ ex)) '''']
      | Inr None \<Rightarrow>
          [add_row ''LTE Frequency Audit'' ''GUtranSyncSignalFrequency''
             ''GUtranSyncSignalFrequency table'' (VStr ''Table not found or empty'') '''']
      | Inr (Some df) \<Rightarrow>
          (let node_col = resolve_column_case_insensitive df [''NodeId''];
               arfcn_col = resolve_column_case_insensitive df [''arfcn'', ''arfcnDL'']
           in if truthy node_col \<and> truthy arfcn_col
              then gu_sync_signal_freq_rows e cfg df (the node_col) (the arfcn_col)
              else [add_row ''LTE Frequency Audit'' ''GUtranSyncSignalFrequency''
                      ''GUtranSyncSignalFrequency table present but required columns missing''
                      (VStr ''N/A'') '''']))"

section \<open>GUtranFreqRelation\<close>

definition gu_cols_to_ignore :: "frame \<Rightarrow> string \<Rightarrow> string list" where
  "gu_cols_to_ignore full arfcn_col =
     arfcn_col # filter (\<lambda>name. py_lower name \<in> {''gutranfreqrelationid'', ''gutransyncsignalfrequencyref''})
                   (columns full)"

text \<open>The frame \<^verbatim>\<open>full\<close> of the cell-level check: node, cell and relation identifiers as strings.\<close>

definition gu_full :: "frame \<Rightarrow> string \<Rightarrow> string \<Rightarrow> string \<Rightarrow> frame" where
  "gu_full df node_col arfcn_col cell_col_gu =
     astype_str arfcn_col (astype_str cell_col_gu (astype_str node_col df))"

text \<open>
  The rows of a cell at one relation identifier (\<^verbatim>\<open>old_rows\<close>, \<^verbatim>\<open>new_rows\<close>),
  and what is compared of them (\<^verbatim>\<open>old_clean\<close>, \<^verbatim>\<open>new_clean\<close>).
\<close>

definition gu_rel_rows :: "frame \<Rightarrow> string \<Rightarrow> string \<Rightarrow> string \<Rightarrow> string \<Rightarrow> frame" where
  "gu_rel_rows full cell_col_gu arfcn_col expected_rel_id cell_id =
     (let cell_rows = select_rows
                        (\<lambda>r. py_str (cell_at r (index_of cell_col_gu (columns full))) = cell_id) full
      in rows_where arfcn_col (CStr expected_rel_id) cell_rows)"

definition gu_clean :: "frame \<Rightarrow> string \<Rightarrow> string \<Rightarrow> string \<Rightarrow> string \<Rightarrow> frame" where
  "gu_clean full cell_col_gu arfcn_col expected_rel_id cell_id =
     clean (gu_cols_to_ignore full arfcn_col) (gu_rel_rows full cell_col_gu arfcn_col expected_rel_id cell_id)"

text \<open>The body of the loop over \<^verbatim>\<open>cells_both\<close>: is the cell appended to \<^verbatim>\<open>bad_cells_params\<close>?\<close>

definition gu_param_mismatch :: "frame \<Rightarrow> string \<Rightarrow> string \<Rightarrow> string \<Rightarrow> string \<Rightarrow> string \<Rightarrow> bool" where
  "gu_param_mismatch full cell_col_gu arfcn_col expected_old_rel_id expected_new_rel_id cell_id =
     (if empty_frame (gu_rel_rows full cell_col_gu arfcn_col expected_old_rel_id cell_id)
         \<or> empty_frame (gu_rel_rows full cell_col_gu arfcn_col expected_new_rel_id cell_id)
      then False
      else \<not> frame_equals (gu_clean full cell_col_gu arfcn_col expected_old_rel_id cell_id)
                           (gu_clean full cell_col_gu arfcn_col expected_new_rel_id cell_id))"

definition gu_cells_with :: "frame \<Rightarrow> string \<Rightarrow> string \<Rightarrow> string \<Rightarrow> string list" where
  "gu_cells_with full cell_col_gu arfcn_col expected_rel_id =
     map py_str (col (rows_where arfcn_col (CStr expected_rel_id) full) cell_col_gu)"

definition gu_cells_both :: "env \<Rightarrow> config \<Rightarrow> frame \<Rightarrow> string \<Rightarrow> string \<Rightarrow> string list" where
  "gu_cells_both e cfg full cell_col_gu arfcn_col =
     sorted_inter e
       (gu_cells_with full cell_col_gu arfcn_col (str_int (old_arfcn cfg) @ ''-30-20-0-1''))
       (gu_cells_with full cell_col_gu arfcn_col (str_int (new_arfcn cfg) @ ''-30-20-0-1''))"

definition gu_bad_cells_params :: "env \<Rightarrow> config \<Rightarrow> frame \<Rightarrow> string \<Rightarrow> string \<Rightarrow> string list" where
  "gu_bad_cells_params e cfg full cell_col_gu arfcn_col =
     sorted_set e
       (filter (gu_param_mismatch full cell_col_gu arfcn_col
                  (str_int (old_arfcn cfg) @ ''-30-20-0-1'') (str_int (new_arfcn cfg) @ ''-30-20-0-1''))
          (gu_cells_both e cfg full cell_col_gu arfcn_col))"

definition gu_freq_rel_cell_rows :: "env \<Rightarrow> config \<Rightarrow> frame \<Rightarrow> string \<Rightarrow> string \<Rightarrow> row list" where
  "gu_freq_rel_cell_rows e cfg df node_col arfcn_col =
     (let cell_col_gu = resolve_column_case_insensitive df
                          [''EUtranCellFDDId'', ''EUtranCellId'', ''CellId'', ''GUCellId''];
          expected_old_rel_id = str_int (old_arfcn cfg) @ ''-30-20-0-1'';
          expected_new_rel_id = str_int (new_arfcn cfg) @ ''-30-20-0-1''
      in if truthy cell_col_gu then
           (let full = gu_full df node_col arfcn_col (the cell_col_gu);
                cells_with_old = gu_cells_with full (the cell_col_gu) arfcn_col expected_old_rel_id;
                cells_with_new = gu_cells_with full (the cell_col_gu) arfcn_col expected_new_rel_id;
                cells_both = gu_cells_both e cfg full (the cell_col_gu) arfcn_col;
                cells_old_without_new = sorted_diff e cells_with_old cells_with_new;
                bad_cells_params = gu_bad_cells_params e cfg full (the cell_col_gu) arfcn_col
            in [add_row ''LTE Frequency Audit'' ''GUtranFreqRelation''
                  (''LTE cells with GUtranFreqRelationId '' @ expected_old_rel_id @ '' and ''
                     @ expected_new_rel_id @ '' in GUtranFreqRelation'')
                  (len cells_both) (join '', '' cells_both),
                add_row ''LTE Frequency Inconsistences'' ''GUtranFreqRelation''
                  (''LTE cells with GUtranFreqRelationId '' @ expected_old_rel_id @ '' but without ''
                     @ expected_new_rel_id @ '' in GUtranFreqRelation'')
                  (len cells_old_without_new) (join '', '' cells_old_without_new),
                add_row ''LTE Frequency Inconsistences'' ''GUtranFreqRelation''
                  (''LTE cells with mismatching params between GUtranFreqRelationId ''
                     @ expected_old_rel_id @ '' and '' @ expected_new_rel_id @ '' in GUtranFreqRelation'')
                  (len bad_cells_params) (join '', '' bad_cells_params)])
         else
           [add_row ''LTE Frequency Audit'' ''GUtranFreqRelation''
              ''GUtranFreqRelation cell-level check skipped (EUtranCellFDDId/EUtranCellId/CellId/GUCellId missing)''
              (VStr ''N/A'') ''''])"

definition gu_freq_rel_rows :: "env \<Rightarrow> config \<Rightarrow> frame \<Rightarrow> string \<Rightarrow> string \<Rightarrow> row list" where
  "gu_freq_rel_rows e cfg df node_col arfcn_col =
     (let work = zip (map py_str (col df node_col)) (col df arfcn_col);
          grouped = groupby work;
          old_nodes = old_nodes_of e cfg grouped;
          new_nodes = new_nodes_of e cfg grouped;
          nodes_old_and_new = sorted_inter e old_nodes new_nodes;
          nodes_old_without_new = sorted_diff e old_nodes new_nodes;
          not_old_not_new_nodes = not_old_not_new_nodes_of e cfg grouped
      in [add_row ''LTE Frequency Audit'' ''GUtranFreqRelation''
            (''LTE nodes with the old ARFCN ('' @ str_int (old_arfcn cfg) @ '') in GUtranFreqRelation'')
            (len old_nodes) (join '', '' old_nodes),
          add_row ''LTE Frequency Audit'' ''GUtranFreqRelation''
            (''LTE nodes with the new ARFCN ('' @ str_int (new_arfcn cfg) @ '') in GUtranFreqRelation'')
            (len new_nodes) (join '', '' new_nodes),
          add_row ''LTE Frequency Audit'' ''GUtranFreqRelation''
            (''LTE nodes with both, the old ARFCN ('' @ str_int (old_arfcn cfg)
               @ '') and the new ARFCN ('' @ str_int (new_arfcn cfg) @ '') in GUtranFreqRelation'')
            (len nodes_old_and_new) (join '', '' nodes_old_and_new),
          add_row ''LTE Frequency Inconsistences'' ''GUtranFreqRelation''
            (''LTE nodes with the old ARFCN ('' @ str_int (old_arfcn cfg)
               @ '') but without the new ARFCN ('' @ str_int (new_arfcn cfg) @ '') in GUtranFreqRelation'')
            (len nodes_old_without_new) (join '', '' nodes_old_without_new),
          add_row ''LTE Frequency Inconsistences'' ''GUtranFreqRelation''
            (''LTE nodes with the ARFCN not in ('' @ str_int (old_arfcn cfg) @ '', ''
               @ str_int (new_arfcn cfg) @ '') in GUtranFreqRelation'')
            (len not_old_not_new_nodes) (join '', '' not_old_not_new_nodes)]
         @ gu_freq_rel_cell_rows e cfg df node_col arfcn_col)"

definition process_gu_freq_rel :: "env \<Rightarrow> config \<Rightarrow> table \<Rightarrow> row list" where
  "process_gu_freq_rel e cfg df_gu_freq_rel =
     (case present df_gu_freq_rel of
        Inl ex \<Rightarrow>
          [add_row ''LTE Frequency Audit'' ''GUtranFreqRelation''
             ''Error while checking GUtranFreqRelation'' (VStr (''ERROR: '' @ ex)) '''']
      | Inr None \<Rightarrow>
          [add_row ''LTE Frequency Audit'' ''GUtranFreqRelation'' ''GUtranFreqRelation table''
             (VStr ''Table not found or empty'') '''']
      | Inr (Some df) \<Rightarrow>
          (let node_col = resolve_column_case_insensitive df [''NodeId''];
               arfcn_col = resolve_column_case_insensitive df
                             [''GUtranFreqRelationId'', ''gUtranFreqRelationId'']
           in if truthy node_col \<and> truthy arfcn_col
              then gu_freq_rel_rows e cfg df (the node_col) (the arfcn_col)
              else [add_row ''LTE Frequency Audit'' ''GUtranFreqRelation''
                      ''GUtranFreqRelation table present but ARFCN/NodeId missing''
                      (VStr ''N/A'') '''']))"

section \<open>EndcDistrProfile\<close>

text \<open>
  The three row masks of the checker, on the set \<open>s\<close> of frequency strings that
  \<^verbatim>\<open>extract_sync_frequencies\<close> finds in a \<^verbatim>\<open>gUtranFreqRef\<close>.
\<close>

definition mask_old_pair :: "config \<Rightarrow> string list \<Rightarrow> bool" where
  "mask_old_pair cfg s = (str_int (old_arfcn cfg) \<in> set s \<and> str_int (n77b_ssb cfg) \<in> set s)"

definition mask_new_pair :: "config \<Rightarrow> string list \<Rightarrow> bool" where
  "mask_new_pair cfg s = (str_int (new_arfcn cfg) \<in> set s \<and> str_int (n77b_ssb cfg) \<in> set s)"

definition mask_inconsistent :: "config \<Rightarrow> string list \<Rightarrow> bool" where
  "mask_inconsistent cfg s =
     ((str_int (old_arfcn cfg) \<notin> set s \<and> str_int (new_arfcn cfg) \<notin> set s)
      \<or> str_int (n77b_ssb cfg) \<notin> set s)"

text \<open>The rows of the table as pairs of the node and the frequencies found in its reference.\<close>

definition endc_work :: "env \<Rightarrow> frame \<Rightarrow> string \<Rightarrow> string \<Rightarrow> (string \<times> string list) list" where
  "endc_work e df node_col_edp ref_col =
     zip (map py_str (col df node_col_edp))
       (map (\<lambda>v. extract_sync_frequencies e (py_str v)) (col df ref_col))"

definition endc_nodes :: "(string list \<Rightarrow> bool) \<Rightarrow> (string \<times> string list) list \<Rightarrow> string list" where
  "endc_nodes msk work = sort (unique (map fst (filter (\<lambda>w. msk (snd w)) work)))"

definition endc_distr_profile_rows :: "env \<Rightarrow> config \<Rightarrow> frame \<Rightarrow> string \<Rightarrow> string \<Rightarrow> row list" where
  "endc_distr_profile_rows e cfg df node_col_edp ref_col =
     (let work = endc_work e df node_col_edp ref_col;
          old_nodes = endc_nodes (mask_old_pair cfg) work;
          new_nodes = endc_nodes (mask_new_pair cfg) work;
          bad_nodes = endc_nodes (mask_inconsistent cfg) work
      in [add_row ''EndcDistrProfile Audit'' ''EndcDistrProfile''
            (''Nodes with gUtranFreqRef containing '' @ str_int (old_arfcn cfg) @ '' and ''
               @ str_int (n77b_ssb cfg) @ '' in EndcDistrProfile'')
            (len old_nodes) (join '', '' old_nodes),
          add_row ''EndcDistrProfile Audit'' ''EndcDistrProfile''
            (''Nodes with gUtranFreqRef containing '' @ str_int (new_arfcn cfg) @ '' and ''
               @ str_int (n77b_ssb cfg) @ '' in EndcDistrProfile'')
            (len new_nodes) (join '', '' new_nodes),
          add_row ''EndcDistrProfile Inconsistencies'' ''EndcDistrProfile''
            (''Nodes with gUtranFreqRef not containing ('' @ str_int (old_arfcn cfg) @ '' or ''
               @ str_int (new_arfcn cfg) @ '') together with '' @ str_int (n77b_ssb cfg)
               @ '' in EndcDistrProfile'')
            (len bad_nodes) (join '', '' bad_nodes)])"

definition process_endc_distr_profile :: "env \<Rightarrow> config \<Rightarrow> table \<Rightarrow> row list" where
  "process_endc_distr_profile e cfg df_endc_distr_profile =
     (case present df_endc_distr_profile of
        Inl ex \<Rightarrow>
          [add_row ''EndcDistrProfile Audit'' ''EndcDistrProfile''
             ''Error while checking EndcDistrProfile gUtranFreqRef'' (VStr (''ERROR: '' @ ex)) '''']
      | Inr None \<Rightarrow>
          [add_row ''EndcDistrProfile Audit'' ''EndcDistrProfile'' ''EndcDistrProfile table''
             (VStr ''Table not found or empty'') '''']
      | Inr (Some df) \<Rightarrow>
          (let node_col_edp = resolve_column_case_insensitive df [''NodeId''];
               ref_col = resolve_column_case_insensitive df [''gUtranFreqRef'']
           in if truthy node_col_edp \<and> truthy ref_col
              then endc_distr_profile_rows e cfg df (the node_col_edp) (the ref_col)
              else [add_row ''EndcDistrProfile Audit'' ''EndcDistrProfile''
                      ''EndcDistrProfile table present but NodeId/gUtranFreqRef missing''
                      (VStr ''N/A'') '''']))"

section \<open>Cardinality limits\<close>

text \<open>
  The four blocks of \<^verbatim>\<open>process_cardinalities\<close> compute the same two rows from the
  counts of an identifier column; they differ in the limit, the texts and in whether the
  identifiers are turned into strings first. \<open>sh\<close> prints an identifier.
\<close>

definition max_count :: "('a \<times> nat) list \<Rightarrow> nat" where
  "max_count counts = (if counts = [] then 0 else Max (set (map snd counts)))"

definition at_limit_or_above :: "nat \<Rightarrow> ('a \<times> nat) list \<Rightarrow> ('a \<times> nat) list" where
  "at_limit_or_above limit counts =
     (let above = filter (\<lambda>p. limit \<le> snd p) counts
      in if above = [] \<and> 0 < max_count counts
         then filter (\<lambda>p. snd p = max_count counts) counts
         else above)"

definition at_limit :: "nat \<Rightarrow> ('a \<times> nat) list \<Rightarrow> ('a \<times> nat) list" where
  "at_limit limit counts = filter (\<lambda>p. snd p = limit) counts"

definition count_items :: "('a \<Rightarrow> string) \<Rightarrow> ('a \<times> nat) list \<Rightarrow> string" where
  "count_items sh items = join ''; '' (map (\<lambda>(idx, cnt). sh idx @ '': '' @ string_of_nat cnt) items)"

definition cardinality_rows ::
    "('a \<Rightarrow> string) \<Rightarrow> nat \<Rightarrow> string \<Rightarrow> string \<Rightarrow> ('a \<times> nat) list \<Rightarrow> row list" where
  "cardinality_rows sh limit audit_metric incons_metric counts =
     [add_row ''Cardinality Audit'' ''Cardinality'' audit_metric
        (VInt (int (max_count counts))) (count_items sh (at_limit_or_above limit counts)),
      add_row ''Cardinality Inconsistencies'' ''Cardinality'' incons_metric
        (len (at_limit limit counts)) (count_items sh (at_limit limit counts))]"

text \<open>Max 16 NRFreqRelation per NR cell.\<close>

definition card_nr_freq_rel :: "table \<Rightarrow> row list" where
  "card_nr_freq_rel df_nr_freq_rel =
     (case present df_nr_freq_rel of
        Inl ex \<Rightarrow>
          [add_row ''Cardinality Audit'' ''Cardinality''
             ''Error while checking NRFreqRelation cardinality'' (VStr (''ERROR: '' @ ex)) '''']
      | Inr None \<Rightarrow>
          [add_row ''Cardinality Audit'' ''Cardinality'' ''NRFreqRelation per cell''
             (VStr ''Table not found or empty'') '''']
      | Inr (Some df) \<Rightarrow>
          (let cell_col = resolve_column_case_insensitive df [''NRCellCUId'', ''NRCellId'', ''CellId'']
           in if truthy cell_col
              then cardinality_rows py_str 16 ''Max NRFreqRelation per NR cell (limit 16)''
                     ''NR cells with NRFreqRelation count at limit 16''
                     (value_counts (col df (the cell_col)))
              else [add_row ''Cardinality Audit'' ''Cardinality''
                      ''NRFreqRelation per cell (required cell column missing)'' (VStr ''N/A'') '''']))"

text \<open>Max 64 NRFrequency per node.\<close>

definition card_nr_freq :: "table \<Rightarrow> row list" where
  "card_nr_freq df_nr_freq =
     (case present df_nr_freq of
        Inl ex \<Rightarrow>
          [add_row ''Cardinality Audit'' ''Cardinality''
             ''Error while checking NRFrequency cardinality'' (VStr (''ERROR: '' @ ex)) '''']
      | Inr None \<Rightarrow>
          [add_row ''Cardinality Audit'' ''Cardinality'' ''NRFrequency per node''
             (VStr ''Table not found or empty'') '''']
      | Inr (Some df) \<Rightarrow>
          (let node_col = resolve_column_case_insensitive df [''NodeId'']
           in if truthy node_col
              then cardinality_rows id 64 ''Max NRFrequency definitions per node (limit 64)''
                     ''NR nodes with NRFrequency definitions at limit 64''
                     (value_counts (map py_str (col df (the node_col))))
              else [add_row ''Cardinality Audit'' ''Cardinality''
                      ''NRFrequency per node (NodeId missing)'' (VStr ''N/A'') '''']))"

text \<open>Max 16 GUtranFreqRelation per LTE cell.\<close>

definition card_gu_freq_rel :: "table \<Rightarrow> row list" where
  "card_gu_freq_rel df_gu_freq_rel =
     (case present df_gu_freq_rel of
        Inl ex \<Rightarrow>
          [add_row ''Cardinality Audit'' ''Cardinality''
             ''Error while checking GUtranFreqRelation cardinality'' (VStr (''ERROR: '' @ ex)) '''']
      | Inr None \<Rightarrow>
          [add_row ''Cardinality Audit'' ''Cardinality'' ''GUtranFreqRelation per LTE cell''
             (VStr ''Table not found or empty'') '''']
      | Inr (Some df) \<Rightarrow>
          (let cell_col_gu = resolve_column_case_insensitive df
                               [''EUtranCellFDDId'', ''EUtranCellId'', ''CellId'', ''GUCellId'']
           in if truthy cell_col_gu
              then cardinality_rows py_str 16 ''Max GUtranFreqRelation per LTE cell (limit 16)''
                     ''LTE cells with GUtranFreqRelation count at limit 16''
                     (value_counts (col df (the cell_col_gu)))
              else [add_row ''Cardinality Audit'' ''Cardinality''
                      ''GUtranFreqRelation per LTE cell (required cell column missing)''
                      (VStr ''N/A'') '''']))"

text \<open>Max 24 GUtranSyncSignalFrequency per node.\<close>

definition card_gu_sync_signal_freq :: "table \<Rightarrow> row list" where
  "card_gu_sync_signal_freq df_gu_sync_signal_freq =
     (case present df_gu_sync_signal_freq of
        Inl ex \<Rightarrow>
          [add_row ''Cardinality Audit'' ''Cardinality''
             ''Error while checking GUtranSyncSignalFrequency cardinality''
             (VStr (''ERROR: '' @ ex)) '''']
      | Inr None \<Rightarrow>
          [add_row ''Cardinality Audit'' ''Cardinality'' ''GUtranSyncSignalFrequency per node''
             (VStr ''Table not found or empty'') '''']
      | Inr (Some df) \<Rightarrow>
          (let node_col = resolve_column_case_insensitive df [''NodeId'']
           in if truthy node_col
              then cardinality_rows id 24
                     ''Max GUtranSyncSignalFrequency definitions per node (limit 24)''
                     ''LTE nodes with GUtranSyncSignalFrequency definitions at limit 24''
                     (value_counts (map py_str (col df (the node_col))))
              else [add_row ''Cardinality Audit'' ''Cardinality''
                      ''GUtranSyncSignalFrequency per node (NodeId missing)'' (VStr ''N/A'') '''']))"

section \<open>The summary audit\<close>

record tables =
  df_nr_cell_du :: table
  df_nr_freq :: table
  df_nr_freq_rel :: table
  df_freq_prio_nr :: table
  df_gu_sync_signal_freq :: table
  df_gu_freq_rel :: table
  df_nr_sector_carrier :: table
  df_endc_distr_profile :: table

definition process_cardinalities :: "tables \<Rightarrow> row list" where
  "process_cardinalities t =
     card_nr_freq_rel (df_nr_freq_rel t) @ card_nr_freq (df_nr_freq t)
       @ card_gu_freq_rel (df_gu_freq_rel t) @ card_gu_sync_signal_freq (df_gu_sync_signal_freq t)"

text \<open>The rows that the checkers append, in the order in which \<^verbatim>\<open>main\<close> calls them.\<close>

definition run_checkers :: "env \<Rightarrow> config \<Rightarrow> tables \<Rightarrow> row list" where
  "run_checkers e cfg t =
     process_nr_freq e cfg (df_nr_freq t)
       @ process_nr_freq_rel e cfg (df_nr_freq_rel t)
       @ process_nr_cell_du e cfg (df_nr_cell_du t)
       @ process_nr_sector_carrier e cfg (df_nr_sector_carrier t)
       @ process_freq_prio_nr e cfg (df_freq_prio_nr t)
       @ process_gu_sync_signal_freq e cfg (df_gu_sync_signal_freq t)
       @ process_gu_freq_rel e cfg (df_gu_freq_rel t)
       @ process_endc_distr_profile e cfg (df_endc_distr_profile t)
       @ process_cardinalities t"

definition desired_order :: "(string \<times> string) list" where
  "desired_order =
     [(''NR Frequency Audit'', ''NRFrequency''),
      (''NR Frequency Audit'', ''NRFreqRelation''),
      (''NR Frequency Audit'', ''NRSectorCarrier''),
      (''NR Frequency Audit'', ''NRCellDU''),
      (''NR Frequency Audit'', ''FreqPrioNR''),
      (''NR Frequency Inconsistencies'', ''NRFrequency''),
      (''NR Frequency Inconsistencies'', ''NRFreqRelation''),
      (''NR Frequency Inconsistencies'', ''NRSectorCarrier''),
      (''NR Frequency Inconsistencies'', ''FreqPrioNR''),
      (''LTE Frequency Audit'', ''GUtranSyncSignalFrequency''),
      (''LTE Frequency Audit'', ''GUtranFreqRelation''),
      (''LTE Frequency Inconsistences'', ''GUtranSyncSignalFrequency''),
      (''LTE Frequency Inconsistences'', ''GUtranFreqRelation''),
      (''EndcDistrProfile Audit'', ''EndcDistrProfile''),
      (''EndcDistrProfile Inconsistencies'', ''EndcDistrProfile''),
      (''Cardinality Audit'', ''Cardinality''),
      (''Cardinality Inconsistencies'', ''Cardinality'')]"

text \<open>
  \<^verbatim>\<open>order_map.get(key, len(desired_order) + 100)\<close>: the position of the row's pair
  in the list, which has no pair twice, and 117 for a pair that is not in it.
\<close>

definition order_row :: "row \<Rightarrow> nat" where
  "order_row r =
     (let key = (Category r, SubCategory r)
      in if key \<in> set desired_order then index_of key desired_order
         else length desired_order + 100)"

definition info_row :: row where
  "info_row = \<lparr>Category = ''Info'', SubCategory = ''Info'', Metric = ''SummaryAudit'',
               Value = VStr ''No data available'', ExtraInfo = ''''\<rparr>"

text \<open>
  The end of \<^verbatim>\<open>main\<close>: the informational row if nothing was appended, then
  \<^verbatim>\<open>sort_values("__order__", kind="mergesort")\<close>, a stable sort by the key
  \<open>order_row\<close>. The frame of the rows is never empty there and has the three columns
  that the guard of the sort asks for.
\<close>

definition assemble :: "row list \<Rightarrow> row list" where
  "assemble rs = sort_key order_row (if rs = [] then [info_row] else rs)"

definition build_summary_audit :: "env \<Rightarrow> config \<Rightarrow> tables \<Rightarrow> row list" where
  "build_summary_audit e cfg t = assemble (run_checkers e cfg t)"

section \<open>Reference helpers for concrete runs\<close>

text \<open>
  Modelled from the spec: \<^verbatim>\<open>parse_int_frequency\<close> of \<^verbatim>\<open>utils_frequency\<close>,
  which is not among the sources. An integer is itself; of a string, trimmed, the leading
  run of digits is read; anything else has no frequency.
\<close>

definition is_digit :: "char \<Rightarrow> bool" where
  "is_digit c = (c \<in> set ''0123456789'')"

definition nat_of_digits :: "string \<Rightarrow> nat" where
  "nat_of_digits ds = foldl (\<lambda>a c. 10 * a + index_of c ''0123456789'') 0 ds"

fun spec_parse_int_frequency :: "cell \<Rightarrow> int option" where
  "spec_parse_int_frequency (CInt i) = Some i"
| "spec_parse_int_frequency (CStr s) =
     (let ds = takeWhile is_digit (py_strip s)
      in if ds = [] then None else Some (int (nat_of_digits ds)))"
| "spec_parse_int_frequency CNull = None"

text \<open>
  Modelled from the spec: \<^verbatim>\<open>is_n77_from_string\<close>, which is not among the sources.
  A value is N77 iff it parses to a frequency in [646600, 660000].
\<close>

definition spec_is_n77_from_string :: "cell \<Rightarrow> bool" where
  "spec_is_n77_from_string v =
     (case spec_parse_int_frequency v of None \<Rightarrow> False | Some f \<Rightarrow> 646600 \<le> f \<and> f \<le> 660000)"

text \<open>
  Modelled from the spec: \<^verbatim>\<open>extract_sync_frequencies\<close>, which is not among the
  sources. The numeric substrings of a reference, as strings: its maximal runs of digits.
\<close>

fun digit_runs :: "string \<Rightarrow> string \<Rightarrow> string list" where
  "digit_runs cur [] = (if cur = [] then [] else [cur])"
| "digit_runs cur (c # cs) =
     (if is_digit c then digit_runs (cur @ [c]) cs
      else if cur = [] then digit_runs [] cs
      else cur # digit_runs [] cs)"

definition spec_extract_sync_frequencies :: "string \<Rightarrow> string list" where
  "spec_extract_sync_frequencies s = digit_runs [] s"

text \<open>An environment with these helpers; its sets iterate in the reverse order of insertion.\<close>

definition spec_env :: env where
  "spec_env =
     \<lparr>parse_int_frequency = spec_parse_int_frequency,
      is_n77_from_string = spec_is_n77_from_string,
      extract_sync_frequencies = spec_extract_sync_frequencies,
      set_iter = (\<lambda>xs. rev (remdups xs)),
      pair_iter = (\<lambda>xs. rev (remdups xs))\<rparr>"

text \<open>The same helpers, with sets that iterate in the order of insertion.\<close>

definition spec_env2 :: env where
  "spec_env2 = spec_env\<lparr>set_iter := remdups, pair_iter := remdups\<rparr>"

definition no_tables :: tables where
  "no_tables =
     \<lparr>df_nr_cell_du = Absent, df_nr_freq = Absent, df_nr_freq_rel = Absent,
      df_freq_prio_nr = Absent, df_gu_sync_signal_freq = Absent, df_gu_freq_rel = Absent,
      df_nr_sector_carrier = Absent, df_endc_distr_profile = Absent\<rparr>"

definition cfg0 :: config where
  "cfg0 = \<lparr>old_arfcn = 648672, new_arfcn = 647328, n77b_ssb = 650006,
            allowed_n77_ssb = None, allowed_n77_arfcn = None\<rparr>"

text \<open>Four collected rows, one of them with a pair that the priority list does not have.\<close>

definition card_first :: row where
  "card_first = add_row ''Cardinality Audit'' ''Cardinality'' ''first'' (VInt 1) ''''"

definition nr_second :: row where
  "nr_second = add_row ''NR Frequency Audit'' ''NRFrequency'' ''second'' (VInt 2) ''''"

definition card_third :: row where
  "card_third = add_row ''Cardinality Audit'' ''Cardinality'' ''third'' (VInt 3) ''''"

definition rows0 :: "row list" where
  "rows0 = [info_row, card_first, nr_second, card_third]"

text \<open>An NRFrequency table whose frequencies are outside the N77 band or unparsable.\<close>

definition nr_freq_low :: frame where
  "nr_freq_low =
     \<lparr>columns = [''NodeId'', ''arfcnValueNRDl''],
      rows = [[CStr ''N1'', CInt 100000], [CStr ''N2'', CStr ''abc'']]\<rparr>"

text \<open>A table with a column and no rows.\<close>

definition no_rows :: table where
  "no_rows = Frame \<lparr>columns = [''NodeId''], rows = []\<rparr>"

text \<open>The row that a checker emits for a table that is absent or empty.\<close>

definition not_found :: "string \<Rightarrow> string \<Rightarrow> string \<Rightarrow> row" where
  "not_found category subcategory metric =
     \<lparr>Category = category, SubCategory = subcategory, Metric = metric,
      Value = VStr ''Table not found or empty'', ExtraInfo = ''''\<rparr>"

text \<open>An NRFreqRelation table with the old and the new frequency on one node.\<close>

definition cfg1 :: config where
  "cfg1 = \<lparr>old_arfcn = 652000, new_arfcn = 655000, n77b_ssb = 660001,
            allowed_n77_ssb = None, allowed_n77_arfcn = None\<rparr>"

definition nr_rel_n1 :: frame where
  "nr_rel_n1 =
     \<lparr>columns = [''NodeId'', ''NRFreqRelationId''],
      rows = [[CStr ''N1'', CStr ''652000''], [CStr ''N1'', CStr ''655000'']]\<rparr>"

text \<open>An NRFreqRelation table in which the cell C1 has 17 relations and the cell C2 one.\<close>

definition nr_rel_17 :: frame where
  "nr_rel_17 =
     \<lparr>columns = [''NodeId'', ''NRCellCUId'', ''NRFreqRelationId''],
      rows = map (\<lambda>k. [CStr ''N1'', CStr ''C1'', CInt k])
               [1, 2, 3, 4, 5, 6, 7, 8, 9, 10, 11, 12, 13, 14, 15, 16, 17]
             @ [[CStr ''N1'', CStr ''C2'', CInt 1]]\<rparr>"

text \<open>Two EndcDistrProfile tables of the node N1, and the frequencies of their scenario.\<close>

definition cfg2 :: config where
  "cfg2 = \<lparr>old_arfcn = 653952, new_arfcn = 648672, n77b_ssb = 660001,
            allowed_n77_ssb = None, allowed_n77_arfcn = None\<rparr>"

definition endc_two :: frame where
  "endc_two =
     \<lparr>columns = [''NodeId'', ''gUtranFreqRef''],
      rows = [[CStr ''N1'', CStr ''GUtranSyncSignalFrequency=648672-30 GUtranSyncSignalFrequency=660001-30''],
              [CStr ''N1'', CStr ''GUtranSyncSignalFrequency=653952-30'']]\<rparr>"

definition endc_one :: frame where
  "endc_one =
     \<lparr>columns = [''NodeId'', ''gUtranFreqRef''],
      rows = [[CStr ''N1'', CStr ''GUtranSyncSignalFrequency=648672-30 GUtranSyncSignalFrequency=660001-30'']]\<rparr>"

text \<open>
  A GUtranFreqRelation table in which the cell 1 of the nodes N1 and N2 has the old and the
  new relation, the new ones in the other order of the nodes; and the frame of its
  cell-level check.
\<close>

definition gu_swapped :: frame where
  "gu_swapped =
     \<lparr>columns = [''NodeId'', ''CellId'', ''GUtranFreqRelationId'', ''qOffsetFreq''],
      rows = [[CStr ''N1'', CInt 1, CStr ''653952-30-20-0-1'', CInt 0],
              [CStr ''N2'', CInt 1, CStr ''653952-30-20-0-1'', CInt 0],
              [CStr ''N2'', CInt 1, CStr ''648672-30-20-0-1'', CInt 0],
              [CStr ''N1'', CInt 1, CStr ''648672-30-20-0-1'', CInt 0]]\<rparr>"

definition full_swapped :: frame where
  "full_swapped =
     \<lparr>columns = [''NodeId'', ''CellId'', ''GUtranFreqRelationId'', ''qOffsetFreq''],
      rows = [[CStr ''N1'', CStr ''1'', CStr ''653952-30-20-0-1'', CInt 0],
              [CStr ''N2'', CStr ''1'', CStr ''653952-30-20-0-1'', CInt 0],
              [CStr ''N2'', CStr ''1'', CStr ''648672-30-20-0-1'', CInt 0],
              [CStr ''N1'', CStr ''1'', CStr ''648672-30-20-0-1'', CInt 0]]\<rparr>"

text \<open>The environment whose sets iterate in the order of insertion.\<close>

definition canon :: "env \<Rightarrow> env" where
  "canon e = e\<lparr>set_iter := remdups, pair_iter := remdups\<rparr>"

text \<open>
  An NRFreqRelation table in which the cell C1 has the old and the new relation with the
  same attributes; and the frame \<^verbatim>\<open>full_n77\<close> of its cell-level check.
\<close>

definition nr_same :: frame where
  "nr_same =
     \<lparr>columns = [''NodeId'', ''NRCellCUId'', ''NRFreqRelationId'', ''qOffsetFreq''],
      rows = [[CStr ''N1'', CStr ''C1'', CStr ''653952'', CInt 0],
              [CStr ''N1'', CStr ''C1'', CStr ''648672'', CInt 0]]\<rparr>"

definition full_n77_same :: frame where
  "full_n77_same =
     \<lparr>columns = [''NodeId'', ''NRCellCUId'', ''NRFreqRelationId'', ''qOffsetFreq'', ''_arfcn_int_''],
      rows = [[CStr ''N1'', CStr ''C1'', CStr ''653952'', CInt 0, CInt 653952],
              [CStr ''N1'', CStr ''C1'', CStr ''648672'', CInt 0, CInt 648672]]\<rparr>"

text \<open>A row whose pair of category and subcategory is one of the 17 buckets.\<close>

definition recognised :: "row \<Rightarrow> bool" where
  "recognised r = ((Category r, SubCategory r) \<in> set desired_order)"

section \<open>Basic facts\<close>

lemma set_unique_acc: "set (unique_acc seen xs) = set xs - set seen"
  by (induction xs arbitrary: seen) auto

lemma distinct_unique_acc: "distinct (unique_acc seen xs)"
  by (induction xs arbitrary: seen) (auto simp: set_unique_acc)

lemma set_unique [simp]: "set (unique xs) = set xs"
  by (simp add: unique_def set_unique_acc)

lemma distinct_unique [simp]: "distinct (unique xs)"
  by (simp add: unique_def distinct_unique_acc)

text \<open>
  Sorting the iteration over a set gives the same list whatever the order of the
  iteration is.
\<close>

lemma sorted_set_canonical:
  assumes "valid_env e"
  shows "sorted_set e xs = sort (remdups xs)"
proof -
  from assms have d: "distinct (set_iter e xs)" and s: "set (set_iter e xs) = set xs"
    by (simp_all add: valid_env_def valid_iter_def)
  have "sort (set_iter e xs) = sorted_list_of_set (set (set_iter e xs))"
    using d by (simp add: sorted_list_of_set_sort_remdups distinct_remdups_id)
  also have "\<dots> = sort (remdups xs)"
    by (simp add: s sorted_list_of_set_sort_remdups)
  finally show ?thesis by (simp add: sorted_set_def)
qed

lemma sorted_pair_set_canonical:
  assumes "valid_env e"
  shows "sorted_pair_set e xs = sort (remdups xs)"
proof -
  from assms have d: "distinct (pair_iter e xs)" and s: "set (pair_iter e xs) = set xs"
    by (simp_all add: valid_env_def valid_iter_def)
  have "sort (pair_iter e xs) = sorted_list_of_set (set (pair_iter e xs))"
    using d by (simp add: sorted_list_of_set_sort_remdups distinct_remdups_id)
  also have "\<dots> = sort (remdups xs)"
    by (simp add: s sorted_list_of_set_sort_remdups)
  finally show ?thesis by (simp add: sorted_pair_set_def)
qed

lemma valid_spec_env: "valid_env spec_env"
  by (simp add: valid_env_def valid_iter_def spec_env_def)

lemma valid_spec_env2: "valid_env spec_env2"
  by (simp add: valid_env_def valid_iter_def spec_env2_def spec_env_def)

section \<open>Unparsable values (C5)\<close>

text \<open>
  C5. A value whose frequency parse is absent is not old, not new and in neither allowed
  set, and it satisfies "not old and not new": in a group of values it neither makes the
  group old or new nor keeps it from being "only not old, not new", and a group that
  holds nothing else is such a group.
\<close>

theorem unparsable_neither_old_nor_new:
  assumes "parse_int_frequency e v = None"
  shows "\<not> is_old e cfg v \<and> \<not> is_new e cfg v
         \<and> \<not> is_allowed_n77_ssb e cfg v \<and> \<not> is_allowed_n77_arfcn e cfg v
         \<and> is_not_old_not_new e cfg v
         \<and> series_only_not_old_not_new e cfg (v # series) = series_only_not_old_not_new e cfg series
         \<and> list_ex (is_old e cfg) (v # series) = list_ex (is_old e cfg) series
         \<and> list_ex (is_new e cfg) (v # series) = list_ex (is_new e cfg) series"
  using assms
  by (simp add: is_old_def is_new_def is_allowed_n77_ssb_def is_allowed_n77_arfcn_def
      is_not_old_not_new_def series_only_not_old_not_new_def)

theorem unparsable_neither_old_nor_new_witness:
  "parse_int_frequency spec_env (CStr ''n/a'') = None
   \<and> \<not> is_old spec_env cfg0 (CStr ''n/a'') \<and> \<not> is_new spec_env cfg0 (CStr ''n/a'')
   \<and> \<not> is_allowed_n77_ssb spec_env cfg0 (CStr ''n/a'')
   \<and> \<not> is_allowed_n77_arfcn spec_env cfg0 (CStr ''n/a'')
   \<and> is_not_old_not_new spec_env cfg0 (CStr ''n/a'')
   \<and> series_only_not_old_not_new spec_env cfg0 [CStr ''n/a'']"
proof -
  have h: "parse_int_frequency spec_env (CStr ''n/a'') = None"
    by (simp add: spec_env_def py_strip_def is_space_def is_digit_def)
  show ?thesis
    using h unparsable_neither_old_nor_new [OF h, of cfg0 "[]"]
    by (simp add: series_only_not_old_not_new_def)
qed

section \<open>The report is never empty (C1)\<close>

lemma card_nr_freq_rel_nonempty: "card_nr_freq_rel t \<noteq> []"
  by (simp add: card_nr_freq_rel_def cardinality_rows_def Let_def split: sum.splits option.splits)

lemma run_checkers_nonempty: "run_checkers e cfg t \<noteq> []"
  by (simp add: run_checkers_def process_cardinalities_def card_nr_freq_rel_nonempty)

lemma assemble_nonempty: "assemble rs \<noteq> []"
proof -
  have "length (assemble rs) = length (if rs = [] then [info_row] else rs)"
    by (simp only: assemble_def length_sort)
  then have "0 < length (assemble rs)" by (simp split: if_splits)
  then show ?thesis by blast
qed

lemma assemble_Nil: "assemble [] = [info_row]"
  by (simp add: assemble_def)

text \<open>
  An exception raised in a \<^verbatim>\<open>try\<close> block becomes one row of the report: the rows
  of the twelve blocks for a table that is no data frame.
\<close>

lemma broken_table_rows:
  "process_nr_freq e cfg (Broken msg) =
     [add_row ''NR Frequency Audit'' ''NRFrequency'' ''Error while checking NRFrequency''
        (VStr (''ERROR: '' @ msg)) '''']"
  "process_nr_freq_rel e cfg (Broken msg) =
     [add_row ''NR Frequency Audit'' ''NRFreqRelation'' ''Error while checking NRFreqRelation''
        (VStr (''ERROR: '' @ msg)) '''']"
  "process_nr_cell_du e cfg (Broken msg) =
     [add_row ''NR Frequency Audit'' ''NRCellDU'' ''Error while checking NRCellDU''
        (VStr (''ERROR: '' @ msg)) '''']"
  "process_nr_sector_carrier e cfg (Broken msg) =
     [add_row ''NR Frequency Audit'' ''NRSectorCarrier'' ''Error while checking NRSectorCarrier''
        (VStr (''ERROR: '' @ msg)) '''']"
  "process_freq_prio_nr e cfg (Broken msg) =
     [add_row ''NR Frequency Audit'' ''FreqPrioNR'' ''Error while checking FreqPrioNR''
        (VStr (''ERROR: '' @ msg)) '''']"
  "process_gu_sync_signal_freq e cfg (Broken msg) =
     [add_row ''LTE Frequency Audit'' ''GUtranSyncSignalFrequency''
        ''Error while checking GUtranSyncSignalFrequency'' (VStr (''ERROR: '' @ msg)) '''']"
  "process_gu_freq_rel e cfg (Broken msg) =
     [add_row ''LTE Frequency Audit'' ''GUtranFreqRelation''
        ''Error while checking GUtranFreqRelation'' (VStr (''ERROR: '' @ msg)) '''']"
  "process_endc_distr_profile e cfg (Broken msg) =
     [add_row ''EndcDistrProfile Audit'' ''EndcDistrProfile''
        ''Error while checking EndcDistrProfile gUtranFreqRef'' (VStr (''ERROR: '' @ msg)) '''']"
  "card_nr_freq_rel (Broken msg) =
     [add_row ''Cardinality Audit'' ''Cardinality''
        ''Error while checking NRFreqRelation cardinality'' (VStr (''ERROR: '' @ msg)) '''']"
  "card_nr_freq (Broken msg) =
     [add_row ''Cardinality Audit'' ''Cardinality''
        ''Error while checking NRFrequency cardinality'' (VStr (''ERROR: '' @ msg)) '''']"
  "card_gu_freq_rel (Broken msg) =
     [add_row ''Cardinality Audit'' ''Cardinality''
        ''Error while checking GUtranFreqRelation cardinality'' (VStr (''ERROR: '' @ msg)) '''']"
  "card_gu_sync_signal_freq (Broken msg) =
     [add_row ''Cardinality Audit'' ''Cardinality''
        ''Error while checking GUtranSyncSignalFrequency cardinality''
        (VStr (''ERROR: '' @ msg)) '''']"
  by (simp_all add: process_nr_freq_def process_nr_freq_rel_def process_nr_cell_du_def
      process_nr_sector_carrier_def process_freq_prio_nr_def process_gu_sync_signal_freq_def
      process_gu_freq_rel_def process_endc_distr_profile_def card_nr_freq_rel_def
      card_nr_freq_def card_gu_freq_rel_def card_gu_sync_signal_freq_def)


section \<open>The order of the report (C2)\<close>

lemma length_desired_order: "length desired_order = 17"
  by (simp add: desired_order_def)

lemma distinct_desired_order: "distinct desired_order"
  by (simp add: desired_order_def)

lemma index_of_less: "a \<in> set xs \<Longrightarrow> index_of a xs < length xs"
  by (induction xs) auto

lemma order_row_recognised:
  "(Category r, SubCategory r) \<in> set desired_order \<Longrightarrow>
     order_row r = index_of (Category r, SubCategory r) desired_order \<and> order_row r < 17"
  using index_of_less [of "(Category r, SubCategory r)" desired_order]
  by (simp add: order_row_def length_desired_order)

lemma order_row_unrecognised:
  "(Category r, SubCategory r) \<notin> set desired_order \<Longrightarrow> order_row r = 117"
  by (simp add: order_row_def length_desired_order)

lemma sorted_assemble: "sorted (map order_row (assemble rs))"
  by (simp add: assemble_def)

lemma assemble_positions:
  assumes "i < length (assemble rs)" "j < length (assemble rs)"
    and "order_row (assemble rs ! i) < order_row (assemble rs ! j)"
  shows "i < j"
proof (rule ccontr)
  assume "\<not> i < j"
  then have "j \<le> i" by simp
  from sorted_nth_mono [OF sorted_assemble this, of rs] assms(1)
  have "map order_row (assemble rs) ! j \<le> map order_row (assemble rs) ! i"
    by simp
  with assms show False by simp
qed

lemma assemble_stable:
  "rs \<noteq> [] \<Longrightarrow>
     filter (\<lambda>r. order_row r = k) (assemble rs) = filter (\<lambda>r. order_row r = k) rs"
  by (simp add: assemble_def sort_key_stable)

text \<open>Every row that a checker emits belongs to one of the 17 buckets.\<close>

lemma recognised_add_row:
  "recognised (add_row ''NR Frequency Audit'' ''NRFrequency'' m v x)"
  "recognised (add_row ''NR Frequency Audit'' ''NRFreqRelation'' m v x)"
  "recognised (add_row ''NR Frequency Audit'' ''NRSectorCarrier'' m v x)"
  "recognised (add_row ''NR Frequency Audit'' ''NRCellDU'' m v x)"
  "recognised (add_row ''NR Frequency Audit'' ''FreqPrioNR'' m v x)"
  "recognised (add_row ''NR Frequency Inconsistencies'' ''NRFrequency'' m v x)"
  "recognised (add_row ''NR Frequency Inconsistencies'' ''NRFreqRelation'' m v x)"
  "recognised (add_row ''NR Frequency Inconsistencies'' ''NRSectorCarrier'' m v x)"
  "recognised (add_row ''NR Frequency Inconsistencies'' ''FreqPrioNR'' m v x)"
  "recognised (add_row ''LTE Frequency Audit'' ''GUtranSyncSignalFrequency'' m v x)"
  "recognised (add_row ''LTE Frequency Audit'' ''GUtranFreqRelation'' m v x)"
  "recognised (add_row ''LTE Frequency Inconsistences'' ''GUtranSyncSignalFrequency'' m v x)"
  "recognised (add_row ''LTE Frequency Inconsistences'' ''GUtranFreqRelation'' m v x)"
  "recognised (add_row ''EndcDistrProfile Audit'' ''EndcDistrProfile'' m v x)"
  "recognised (add_row ''EndcDistrProfile Inconsistencies'' ''EndcDistrProfile'' m v x)"
  "recognised (add_row ''Cardinality Audit'' ''Cardinality'' m v x)"
  "recognised (add_row ''Cardinality Inconsistencies'' ''Cardinality'' m v x)"
  by (simp_all add: recognised_def add_row_def desired_order_def)

lemma recognised_nr_freq: "list_all recognised (process_nr_freq e cfg t)"
  by (simp add: process_nr_freq_def nr_freq_rows_def Let_def recognised_add_row
      split: sum.splits option.splits)

lemma recognised_nr_freq_rel: "list_all recognised (process_nr_freq_rel e cfg t)"
  by (simp add: process_nr_freq_rel_def nr_freq_rel_rows_def nr_freq_rel_node_rows_def
      nr_freq_rel_cell_rows_def Let_def recognised_add_row split: sum.splits option.splits)

lemma recognised_nr_cell_du: "list_all recognised (process_nr_cell_du e cfg t)"
  by (simp add: process_nr_cell_du_def nr_cell_du_rows_def Let_def recognised_add_row
      split: sum.splits option.splits)

lemma recognised_nr_sector_carrier: "list_all recognised (process_nr_sector_carrier e cfg t)"
  by (simp add: process_nr_sector_carrier_def nr_sector_carrier_rows_def Let_def
      recognised_add_row split: sum.splits option.splits)

lemma recognised_freq_prio_nr: "list_all recognised (process_freq_prio_nr e cfg t)"
  by (simp add: process_freq_prio_nr_def freq_prio_nr_rows_def Let_def recognised_add_row
      split: sum.splits option.splits)

lemma recognised_gu_sync_signal_freq: "list_all recognised (process_gu_sync_signal_freq e cfg t)"
  by (simp add: process_gu_sync_signal_freq_def gu_sync_signal_freq_rows_def Let_def
      recognised_add_row split: sum.splits option.splits)

lemma recognised_gu_freq_rel: "list_all recognised (process_gu_freq_rel e cfg t)"
  by (simp add: process_gu_freq_rel_def gu_freq_rel_rows_def gu_freq_rel_cell_rows_def Let_def
      recognised_add_row split: sum.splits option.splits)

lemma recognised_endc_distr_profile: "list_all recognised (process_endc_distr_profile e cfg t)"
  by (simp add: process_endc_distr_profile_def endc_distr_profile_rows_def Let_def
      recognised_add_row split: sum.splits option.splits)

lemma recognised_cardinalities: "list_all recognised (process_cardinalities t)"
  by (simp add: process_cardinalities_def card_nr_freq_rel_def card_nr_freq_def
      card_gu_freq_rel_def card_gu_sync_signal_freq_def cardinality_rows_def Let_def
      recognised_add_row split: sum.splits option.splits)

lemma recognised_run_checkers: "list_all recognised (run_checkers e cfg t)"
  by (simp add: run_checkers_def recognised_nr_freq recognised_nr_freq_rel recognised_nr_cell_du
      recognised_nr_sector_carrier recognised_freq_prio_nr recognised_gu_sync_signal_freq
      recognised_gu_freq_rel recognised_endc_distr_profile recognised_cardinalities)

text \<open>
  C2. Let \<open>out\<close> be the report made of the collected rows \<open>rs\<close>. A row of lower priority
  stands before every row of higher priority; the priority of a row whose pair is in the
  list of 17 buckets is the index of the pair in that list, a row whose pair is not in
  the list stands after every row whose pair is; and the rows of one priority, the
  unrecognised ones among them, stand in the order in which they were collected. The
  report of the audit is made this way from the rows of its checkers, each of which
  belongs to one of the 17 buckets.
\<close>

theorem report_order_stable:
  assumes "out = assemble rs" and "rs \<noteq> []" and "i < length out" and "j < length out"
  shows "(order_row (out ! i) < order_row (out ! j) \<longrightarrow> i < j)
         \<and> ((Category (out ! i), SubCategory (out ! i)) \<in> set desired_order
              \<longrightarrow> order_row (out ! i) = index_of (Category (out ! i), SubCategory (out ! i)) desired_order)
         \<and> ((Category (out ! i), SubCategory (out ! i)) \<in> set desired_order
              \<and> (Category (out ! j), SubCategory (out ! j)) \<notin> set desired_order \<longrightarrow> i < j)
         \<and> filter (\<lambda>r. order_row r = k) out = filter (\<lambda>r. order_row r = k) rs
         \<and> length desired_order = 17 \<and> distinct desired_order
         \<and> build_summary_audit e cfg t = assemble (run_checkers e cfg t)
         \<and> run_checkers e cfg t \<noteq> []
         \<and> list_all recognised (run_checkers e cfg t)"
proof -
  have a: "order_row (out ! i) < order_row (out ! j) \<longrightarrow> i < j"
    using assms assemble_positions [of i rs j] by simp
  have b: "(Category (out ! i), SubCategory (out ! i)) \<in> set desired_order
      \<and> (Category (out ! j), SubCategory (out ! j)) \<notin> set desired_order \<longrightarrow> i < j"
    using a order_row_recognised [of "out ! i"] order_row_unrecognised [of "out ! j"] by auto
  have c: "filter (\<lambda>r. order_row r = k) out = filter (\<lambda>r. order_row r = k) rs"
    using assms assemble_stable by simp
  have d: "(Category (out ! i), SubCategory (out ! i)) \<in> set desired_order
      \<longrightarrow> order_row (out ! i) = index_of (Category (out ! i), SubCategory (out ! i)) desired_order"
    using order_row_recognised [of "out ! i"] by blast
  show ?thesis
    using a b c d
    by (simp only: length_desired_order distinct_desired_order build_summary_audit_def
        run_checkers_nonempty recognised_run_checkers simp_thms)
qed

theorem report_order_stable_witness:
  "assemble rows0 = [nr_second, card_first, card_third, info_row]
   \<and> order_row nr_second < order_row card_first
   \<and> (Category card_third, SubCategory card_third) \<in> set desired_order
   \<and> (Category info_row, SubCategory info_row) \<notin> set desired_order
   \<and> filter (\<lambda>r. order_row r = 15) (assemble rows0) = [card_first, card_third]"
proof -
  have o: "order_row info_row = 117" "order_row card_first = 15"
    "order_row nr_second = 0" "order_row card_third = 15"
    by (simp_all add: order_row_def desired_order_def add_row_def info_row_def
        card_first_def nr_second_def card_third_def)
  have m: "(Category card_third, SubCategory card_third) \<in> set desired_order"
    "(Category info_row, SubCategory info_row) \<notin> set desired_order"
    by (simp_all add: desired_order_def add_row_def info_row_def card_third_def)
  have s: "assemble rows0 = [nr_second, card_first, card_third, info_row]"
    by (simp add: assemble_def rows0_def o)
  have n: "rows0 \<noteq> []" by (simp add: rows0_def)
  have l: "(2::nat) < length (assemble rows0)" "(3::nat) < length (assemble rows0)"
    by (simp_all add: s)
  from report_order_stable [OF refl n l, where k = 15 and e = spec_env and cfg = cfg0
      and t = no_tables]
  have "filter (\<lambda>r. order_row r = 15) (assemble rows0) = filter (\<lambda>r. order_row r = 15) rows0"
    by blast
  then show ?thesis
    using s m by (simp add: rows0_def o)
qed

section \<open>NRFrequency without N77 rows (C10)\<close>

lemma filter_snd_zip_empty:
  "length xs = length ys \<Longrightarrow>
     (filter (\<lambda>w. P (snd w)) (zip xs ys) = []) = list_all (\<lambda>v. \<not> P v) ys"
  by (induction xs ys rule: list_induct2) auto

lemma present_Some: "present t = Inr (Some df) \<longleftrightarrow> t = Frame df \<and> \<not> empty_frame df"
  by (cases t) auto

lemma present_None:
  "present t = Inr None \<longleftrightarrow> t = Absent \<or> (\<exists>df. t = Frame df \<and> empty_frame df)"
  by (cases t) auto

lemma nr_freq_rows_no_n77:
  assumes "list_all (\<lambda>v. \<not> is_n77_from_string e v) (col df arfcn_col)"
  shows "nr_freq_rows e cfg df node_col arfcn_col =
           [add_row ''NR Frequency Audit'' ''NRFrequency'' ''NRFrequency table has no N77 rows''
              (VInt 0) '''']"
proof -
  have "length (map py_str (col df node_col)) = length (col df arfcn_col)"
    by (simp add: col_def)
  from filter_snd_zip_empty [OF this, of "is_n77_from_string e"] assms
  show ?thesis by (simp add: nr_freq_rows_def)
qed

lemma nr_freq_rows_n77:
  assumes "\<not> list_all (\<lambda>v. \<not> is_n77_from_string e v) (col df arfcn_col)"
  shows "Metric (hd (nr_freq_rows e cfg df node_col arfcn_col))
           = ''NR nodes with ARFCN defined in NRFrequency''
         \<and> length (nr_freq_rows e cfg df node_col arfcn_col) = 6"
proof -
  have "length (map py_str (col df node_col)) = length (col df arfcn_col)"
    by (simp add: col_def)
  from filter_snd_zip_empty [OF this, of "is_n77_from_string e"] assms
  show ?thesis by (simp add: nr_freq_rows_def Let_def add_row_def)
qed

text \<open>
  C10. Let the NRFrequency table be a non-empty frame whose NodeId and ARFCN columns
  resolve. If no value of the ARFCN column classifies as N77, the checker emits exactly
  one row, with the metric "NRFrequency table has no N77 rows" and the value 0. The count
  "NR nodes with ARFCN defined in NRFrequency" is among the rows of the checker only if
  some value classifies as N77, and then it is the first of six rows.
\<close>

theorem nr_freq_no_n77_rows:
  assumes "present t = Inr (Some df)"
    and "resolve_column_case_insensitive df [''NodeId''] = Some node_col" and "node_col \<noteq> []"
    and "resolve_column_case_insensitive df [''arfcnValueNRDl'', ''NRFrequencyId'', ''nRFrequencyId'']
           = Some arfcn_col" and "arfcn_col \<noteq> []"
  shows "(list_all (\<lambda>v. \<not> is_n77_from_string e v) (col df arfcn_col) \<longrightarrow>
            process_nr_freq e cfg t =
              [add_row ''NR Frequency Audit'' ''NRFrequency'' ''NRFrequency table has no N77 rows''
                 (VInt 0) ''''])
         \<and> (list_ex (\<lambda>r. Metric r = ''NR nodes with ARFCN defined in NRFrequency'')
               (process_nr_freq e cfg t)
             \<longrightarrow> list_ex (is_n77_from_string e) (col df arfcn_col))
         \<and> (list_ex (is_n77_from_string e) (col df arfcn_col) \<longrightarrow>
               length (process_nr_freq e cfg t) = 6
               \<and> Metric (hd (process_nr_freq e cfg t)) = ''NR nodes with ARFCN defined in NRFrequency'')"
proof -
  have p: "process_nr_freq e cfg t = nr_freq_rows e cfg df node_col arfcn_col"
    using assms by (simp add: process_nr_freq_def)
  have ex: "list_ex (is_n77_from_string e) (col df arfcn_col)
      = (\<not> list_all (\<lambda>v. \<not> is_n77_from_string e v) (col df arfcn_col))"
    by (simp add: list_ex_iff list_all_iff)
  show ?thesis
  proof (cases "list_all (\<lambda>v. \<not> is_n77_from_string e v) (col df arfcn_col)")
    case True
    then show ?thesis
      using nr_freq_rows_no_n77 [OF True, of cfg node_col] p ex by (simp add: add_row_def)
  next
    case False
    then show ?thesis
      using nr_freq_rows_n77 [OF False, of cfg node_col] p ex by simp
  qed
qed

lemma resolve_nr_freq_low:
  "resolve_column_case_insensitive nr_freq_low [''NodeId''] = Some ''NodeId''"
  "resolve_column_case_insensitive nr_freq_low
     [''arfcnValueNRDl'', ''NRFrequencyId'', ''nRFrequencyId''] = Some ''arfcnValueNRDl''"
  by (simp_all add: nr_freq_low_def py_lower_def lower_char_def)

theorem nr_freq_no_n77_rows_witness:
  "process_nr_freq spec_env cfg0 (Frame nr_freq_low) =
     [add_row ''NR Frequency Audit'' ''NRFrequency'' ''NRFrequency table has no N77 rows''
        (VInt 0) '''']
   \<and> col nr_freq_low ''arfcnValueNRDl'' = [CInt 100000, CStr ''abc'']
   \<and> \<not> list_ex (is_n77_from_string spec_env) (col nr_freq_low ''arfcnValueNRDl'')"
proof -
  have c: "col nr_freq_low ''arfcnValueNRDl'' = [CInt 100000, CStr ''abc'']"
    by (simp add: col_def nr_freq_low_def cell_at_def)
  have n: "list_all (\<lambda>v. \<not> is_n77_from_string spec_env v) (col nr_freq_low ''arfcnValueNRDl'')"
    by (simp add: c spec_env_def spec_is_n77_from_string_def py_strip_def is_space_def
        is_digit_def)
  have p: "present (Frame nr_freq_low) = Inr (Some nr_freq_low)"
    by (simp add: empty_frame_def nr_freq_low_def)
  from nr_freq_no_n77_rows [OF p resolve_nr_freq_low(1) _ resolve_nr_freq_low(2), of spec_env cfg0]
    n c
  show ?thesis by (simp add: list_ex_iff list_all_iff)
qed

section \<open>Absent and empty tables (C7)\<close>

text \<open>
  C7 as stated fails for the cardinality checker: it reads four tables, and when all of
  them are absent it emits four "Table not found or empty" rows, one for each, and not
  exactly one.
\<close>

theorem cardinality_emits_four_rows:
  "length (process_cardinalities no_tables) = 4
   \<and> map Value (process_cardinalities no_tables) =
     [VStr ''Table not found or empty'', VStr ''Table not found or empty'',
      VStr ''Table not found or empty'', VStr ''Table not found or empty'']
   \<and> map Metric (process_cardinalities no_tables) =
     [''NRFreqRelation per cell'', ''NRFrequency per node'', ''GUtranFreqRelation per LTE cell'',
      ''GUtranSyncSignalFrequency per node'']"
  by (simp add: process_cardinalities_def no_tables_def card_nr_freq_rel_def card_nr_freq_def
      card_gu_freq_rel_def card_gu_sync_signal_freq_def add_row_def)

text \<open>
  C7, amended. For a table that is absent or empty, the NRCellDU checker emits exactly the
  row of the claim, and each of the eight checkers of one table emits exactly one row,
  whose value is "Table not found or empty". The cardinality checker is four checks in
  a row, one per table, whatever the other checks find: each of them emits exactly one
  such row for a table that is absent or empty.
\<close>

theorem absent_or_empty_table:
  assumes "t = Absent \<or> (\<exists>df. t = Frame df \<and> empty_frame df)"
  shows "process_nr_cell_du e cfg t =
           [\<lparr>Category = ''NR Frequency Audit'', SubCategory = ''NRCellDU'',
             Metric = ''NRCellDU table'', Value = VStr ''Table not found or empty'',
             ExtraInfo = ''''\<rparr>]
         \<and> process_nr_freq e cfg t =
             [not_found ''NR Frequency Audit'' ''NRFrequency'' ''NRFrequency table'']
         \<and> process_nr_freq_rel e cfg t =
             [not_found ''NR Frequency Audit'' ''NRFreqRelation'' ''NRFreqRelation table'']
         \<and> process_nr_sector_carrier e cfg t =
             [not_found ''NR Frequency Audit'' ''NRSectorCarrier'' ''NRSectorCarrier table'']
         \<and> process_freq_prio_nr e cfg t =
             [not_found ''NR Frequency Audit'' ''FreqPrioNR'' ''FreqPrioNR table'']
         \<and> process_gu_sync_signal_freq e cfg t =
             [not_found ''LTE Frequency Audit'' ''GUtranSyncSignalFrequency''
                ''GUtranSyncSignalFrequency table'']
         \<and> process_gu_freq_rel e cfg t =
             [not_found ''LTE Frequency Audit'' ''GUtranFreqRelation'' ''GUtranFreqRelation table'']
         \<and> process_endc_distr_profile e cfg t =
             [not_found ''EndcDistrProfile Audit'' ''EndcDistrProfile'' ''EndcDistrProfile table'']
         \<and> card_nr_freq_rel t =
             [not_found ''Cardinality Audit'' ''Cardinality'' ''NRFreqRelation per cell'']
         \<and> card_nr_freq t =
             [not_found ''Cardinality Audit'' ''Cardinality'' ''NRFrequency per node'']
         \<and> card_gu_freq_rel t =
             [not_found ''Cardinality Audit'' ''Cardinality'' ''GUtranFreqRelation per LTE cell'']
         \<and> card_gu_sync_signal_freq t =
             [not_found ''Cardinality Audit'' ''Cardinality'' ''GUtranSyncSignalFrequency per node'']
         \<and> process_cardinalities ts =
             card_nr_freq_rel (df_nr_freq_rel ts) @ card_nr_freq (df_nr_freq ts)
               @ card_gu_freq_rel (df_gu_freq_rel ts)
               @ card_gu_sync_signal_freq (df_gu_sync_signal_freq ts)"
proof -
  from assms have p: "present t = Inr None" by auto
  show ?thesis
    by (simp add: p process_nr_cell_du_def process_nr_freq_def process_nr_freq_rel_def
        process_nr_sector_carrier_def process_freq_prio_nr_def process_gu_sync_signal_freq_def
        process_gu_freq_rel_def process_endc_distr_profile_def card_nr_freq_rel_def
        card_nr_freq_def card_gu_freq_rel_def card_gu_sync_signal_freq_def
        process_cardinalities_def add_row_def not_found_def)
qed

theorem absent_or_empty_table_witness:
  "process_nr_cell_du spec_env cfg0 Absent =
     [not_found ''NR Frequency Audit'' ''NRCellDU'' ''NRCellDU table'']
   \<and> process_nr_cell_du spec_env cfg0 no_rows =
     [not_found ''NR Frequency Audit'' ''NRCellDU'' ''NRCellDU table'']
   \<and> card_nr_freq no_rows =
     [not_found ''Cardinality Audit'' ''Cardinality'' ''NRFrequency per node'']"
proof -
  have a: "Absent = Absent \<or> (\<exists>df. Absent = Frame df \<and> empty_frame df)" by simp
  have b: "no_rows = Absent \<or> (\<exists>df. no_rows = Frame df \<and> empty_frame df)"
    by (simp add: no_rows_def empty_frame_def)
  from absent_or_empty_table [OF a, of spec_env cfg0 no_tables]
    absent_or_empty_table [OF b, of spec_env cfg0 no_tables]
  show ?thesis by (simp add: not_found_def)
qed

section \<open>Node sets of the NRFreqRelation checker (C4)\<close>

lemma keys_filter_groupby:
  "map fst (filter (\<lambda>g. P (snd g)) (groupby kvs)) =
     filter (\<lambda>k. P (map snd (filter (\<lambda>kv. fst kv = k) kvs))) (sort (unique (map fst kvs)))"
  by (simp add: groupby_def filter_map comp_def)

lemma sorted_keys: "sorted (filter Q (sort ks))"
  by (simp add: sorted_filter [where f = id, simplified])

lemma nodes_of_groupby:
  "sort (map fst (filter (\<lambda>g. P (snd g)) (groupby kvs))) =
     filter (\<lambda>k. P (map snd (filter (\<lambda>kv. fst kv = k) kvs))) (sort (unique (map fst kvs)))"
  by (simp only: keys_filter_groupby sorted_sort_id [OF sorted_keys])

lemma list_ex_group:
  "list_ex P (map snd (filter (\<lambda>kv. fst kv = k) kvs)) \<longleftrightarrow> (\<exists>v. (k, v) \<in> set kvs \<and> P v)"
  by (force simp: list_ex_iff)

lemma set_old_nodes_of:
  "set (old_nodes_of e cfg (groupby kvs)) = {n. \<exists>v. (n, v) \<in> set kvs \<and> is_old e cfg v}"
  unfolding old_nodes_of_def nodes_of_groupby
  by (auto simp: list_ex_group) force

lemma set_new_nodes_of:
  "set (new_nodes_of e cfg (groupby kvs)) = {n. \<exists>v. (n, v) \<in> set kvs \<and> is_new e cfg v}"
  unfolding new_nodes_of_def nodes_of_groupby
  by (auto simp: list_ex_group) force

lemma sorted_inter_props:
  assumes "valid_env e"
  shows "set (sorted_inter e xs ys) = set xs \<inter> set ys"
    and "sorted (sorted_inter e xs ys)" and "distinct (sorted_inter e xs ys)"
  using sorted_set_canonical [OF assms] by (auto simp: sorted_inter_def)

lemma sorted_diff_props:
  assumes "valid_env e"
  shows "set (sorted_diff e xs ys) = set xs - set ys"
    and "sorted (sorted_diff e xs ys)" and "distinct (sorted_diff e xs ys)"
  using sorted_set_canonical [OF assms] by (auto simp: sorted_diff_def)

lemma str_int_652000: "str_int 652000 = ''652000''" "str_int 655000 = ''655000''"
  by (simp_all add: str_int_def string_of_nat.simps digit_char_def)

lemma cfg1_fields: "old_arfcn cfg1 = 652000" "new_arfcn cfg1 = 655000" "n77b_ssb cfg1 = 660001"
  by (simp_all add: cfg1_def)

lemma n77_work_n1:
  "nr_freq_rel_n77_work spec_env nr_rel_n1 ''NodeId'' ''NRFreqRelationId'' =
     [(''N1'', CStr ''652000''), (''N1'', CStr ''655000'')]"
  by (simp add: nr_freq_rel_n77_work_def nr_rel_n1_def col_def cell_at_def spec_env_def
      spec_is_n77_from_string_def py_strip_def is_space_def is_digit_def nat_of_digits_def)

lemma groupby_n1:
  "groupby [(''N1'', CStr ''652000''), (''N1'', CStr ''655000'')] =
     [(''N1'', [CStr ''652000'', CStr ''655000''])]"
  by (simp add: groupby_def unique_def)

lemma parse_n1:
  "parse_int_frequency spec_env (CStr ''652000'') = Some 652000"
  "parse_int_frequency spec_env (CStr ''655000'') = Some 655000"
  by (simp_all add: spec_env_def py_strip_def is_space_def is_digit_def nat_of_digits_def)

lemma nodes_n1:
  "old_nodes_of spec_env cfg1 [(''N1'', [CStr ''652000'', CStr ''655000''])] = [''N1'']"
  "new_nodes_of spec_env cfg1 [(''N1'', [CStr ''652000'', CStr ''655000''])] = [''N1'']"
  by (simp_all add: old_nodes_of_def new_nodes_of_def is_old_def is_new_def parse_n1 cfg1_def)

lemma inter_n1: "sorted_inter spec_env [''N1''] [''N1''] = [''N1'']"
  "sorted_diff spec_env [''N1''] [''N1''] = []"
  by (simp_all add: sorted_inter_def sorted_diff_def sorted_set_def spec_env_def)

text \<open>
  C4. Let the NRFreqRelation table be a non-empty frame whose NodeId and
  NRFreqRelationId columns resolve and which has an N77 row, so that the checker emits
  its node-level counts. The third row, "both old and new", reports the sorted list of the
  intersection of the node sets of the first two rows (old ARFCN, new ARFCN), and the
  fourth row, "old but without new", the sorted list of their difference. The node set of
  the old (new) row is the set of nodes with an N77 row whose relation identifier parses
  to the old (new) ARFCN.
\<close>

theorem nr_freq_rel_node_sets:
  assumes "valid_env e" and "present t = Inr (Some df)"
    and "resolve_column_case_insensitive df [''NodeId''] = Some node_col" and "node_col \<noteq> []"
    and "resolve_column_case_insensitive df [''NRFreqRelationId''] = Some arfcn_col"
    and "arfcn_col \<noteq> []"
    and "n77_work = nr_freq_rel_n77_work e df node_col arfcn_col" and "n77_work \<noteq> []"
    and "old_nodes = old_nodes_of e cfg (groupby n77_work)"
    and "new_nodes = new_nodes_of e cfg (groupby n77_work)"
    and "nodes_old_and_new = sorted_inter e old_nodes new_nodes"
    and "nodes_old_without_new = sorted_diff e old_nodes new_nodes"
  shows "take 4 (process_nr_freq_rel e cfg t) =
           [add_row ''NR Frequency Audit'' ''NRFreqRelation''
              (''NR nodes with the old ARFCN ('' @ str_int (old_arfcn cfg) @ '') in NRFreqRelation'')
              (VInt (int (length old_nodes))) (join '', '' old_nodes),
            add_row ''NR Frequency Audit'' ''NRFreqRelation''
              (''NR nodes with the new ARFCN ('' @ str_int (new_arfcn cfg) @ '') in NRFreqRelation'')
              (VInt (int (length new_nodes))) (join '', '' new_nodes),
            add_row ''NR Frequency Audit'' ''NRFreqRelation''
              (''NR nodes with both, the old ARFCN ('' @ str_int (old_arfcn cfg)
                 @ '') and the new ARFCN ('' @ str_int (new_arfcn cfg) @ '') in NRFreqRelation'')
              (VInt (int (length nodes_old_and_new))) (join '', '' nodes_old_and_new),
            add_row ''NR Frequency Inconsistencies'' ''NRFreqRelation''
              (''NR nodes with the old ARFCN ('' @ str_int (old_arfcn cfg)
                 @ '') but without the new ARFCN ('' @ str_int (new_arfcn cfg) @ '') in NRFreqRelation'')
              (VInt (int (length nodes_old_without_new))) (join '', '' nodes_old_without_new)]
         \<and> set nodes_old_and_new = set old_nodes \<inter> set new_nodes
         \<and> set nodes_old_without_new = set old_nodes - set new_nodes
         \<and> sorted nodes_old_and_new \<and> distinct nodes_old_and_new
         \<and> sorted nodes_old_without_new \<and> distinct nodes_old_without_new
         \<and> set old_nodes = {n. \<exists>v. (n, v) \<in> set n77_work \<and> is_old e cfg v}
         \<and> set new_nodes = {n. \<exists>v. (n, v) \<in> set n77_work \<and> is_new e cfg v}"
proof -
  have p: "process_nr_freq_rel e cfg t =
      nr_freq_rel_node_rows e cfg (groupby n77_work) @ nr_freq_rel_cell_rows e cfg df node_col arfcn_col"
    using assms(2-8) by (simp add: process_nr_freq_rel_def nr_freq_rel_rows_def)
  have r: "take 4 (process_nr_freq_rel e cfg t) = take 4 (nr_freq_rel_node_rows e cfg (groupby n77_work))"
    by (simp add: p nr_freq_rel_node_rows_def Let_def)
  show ?thesis
    unfolding r
    using sorted_inter_props [OF assms(1), of old_nodes new_nodes]
      sorted_diff_props [OF assms(1), of old_nodes new_nodes]
      set_old_nodes_of [of e cfg n77_work] set_new_nodes_of [of e cfg n77_work] assms(9-12)
    by (simp add: nr_freq_rel_node_rows_def Let_def len_def)
qed

theorem nr_freq_rel_node_sets_witness:
  "process_nr_freq_rel spec_env cfg1 (Frame nr_rel_n1) ! 2 =
     add_row ''NR Frequency Audit'' ''NRFreqRelation''
       ''NR nodes with both, the old ARFCN (652000) and the new ARFCN (655000) in NRFreqRelation''
       (VInt 1) ''N1''
   \<and> process_nr_freq_rel spec_env cfg1 (Frame nr_rel_n1) ! 3 =
     add_row ''NR Frequency Inconsistencies'' ''NRFreqRelation''
       ''NR nodes with the old ARFCN (652000) but without the new ARFCN (655000) in NRFreqRelation''
       (VInt 0) ''''"
proof -
  have p: "present (Frame nr_rel_n1) = Inr (Some nr_rel_n1)"
    by (simp add: empty_frame_def nr_rel_n1_def)
  have c: "resolve_column_case_insensitive nr_rel_n1 [''NodeId''] = Some ''NodeId''"
    "resolve_column_case_insensitive nr_rel_n1 [''NRFreqRelationId''] = Some ''NRFreqRelationId''"
    by (simp_all add: nr_rel_n1_def py_lower_def lower_char_def)
  have n: "nr_freq_rel_n77_work spec_env nr_rel_n1 ''NodeId'' ''NRFreqRelationId'' \<noteq> []"
    by (simp add: n77_work_n1)
  have t: "take 4 (process_nr_freq_rel spec_env cfg1 (Frame nr_rel_n1)) ! 2
             = process_nr_freq_rel spec_env cfg1 (Frame nr_rel_n1) ! 2"
    "take 4 (process_nr_freq_rel spec_env cfg1 (Frame nr_rel_n1)) ! 3
             = process_nr_freq_rel spec_env cfg1 (Frame nr_rel_n1) ! 3"
    by simp_all
  from nr_freq_rel_node_sets [OF valid_spec_env p c(1) _ c(2) _ refl n refl refl refl refl,
      where cfg = cfg1]
  have "take 4 (process_nr_freq_rel spec_env cfg1 (Frame nr_rel_n1)) =
     [add_row ''NR Frequency Audit'' ''NRFreqRelation''
        ''NR nodes with the old ARFCN (652000) in NRFreqRelation'' (VInt 1) ''N1'',
      add_row ''NR Frequency Audit'' ''NRFreqRelation''
        ''NR nodes with the new ARFCN (655000) in NRFreqRelation'' (VInt 1) ''N1'',
      add_row ''NR Frequency Audit'' ''NRFreqRelation''
        ''NR nodes with both, the old ARFCN (652000) and the new ARFCN (655000) in NRFreqRelation''
        (VInt 1) ''N1'',
      add_row ''NR Frequency Inconsistencies'' ''NRFreqRelation''
        ''NR nodes with the old ARFCN (652000) but without the new ARFCN (655000) in NRFreqRelation''
        (VInt 0) '''']"
    by (simp add: n77_work_n1 groupby_n1 nodes_n1 inter_n1 str_int_652000 cfg1_fields)
  with t show ?thesis by (simp del: nth_take)
qed

section \<open>Cardinality rows (C6)\<close>

lemma set_value_counts: "set (value_counts xs) = (\<lambda>v. (v, count_list xs v)) ` set xs"
  by (simp add: value_counts_def)

lemma value_counts_empty: "value_counts xs = [] \<longleftrightarrow> xs = []"
  using set_value_counts [of xs] by (metis image_is_empty set_empty)

lemma distinct_keys_value_counts: "distinct (map fst (value_counts xs))"
proof -
  have "mset (map fst (value_counts xs)) = mset (unique xs)"
    by (simp add: value_counts_def multiset.map_comp comp_def)
  then show ?thesis
    using distinct_unique [of xs] by (metis mset_eq_imp_distinct_iff)
qed

lemma keys_filter_value_counts:
  "fst ` set (filter P (value_counts xs)) = {v \<in> set xs. P (v, count_list xs v)}"
  by (auto simp: set_value_counts image_iff)

lemma max_count_value_counts:
  "xs \<noteq> [] \<Longrightarrow> max_count (value_counts xs) = Max (count_list xs ` set xs)"
proof -
  assume "xs \<noteq> []"
  have "set (map snd (value_counts xs)) = count_list xs ` set xs"
    by (auto simp: set_value_counts image_iff)
  with \<open>xs \<noteq> []\<close> show ?thesis
    by (simp add: max_count_def value_counts_empty)
qed

lemma max_count_pos: "xs \<noteq> [] \<Longrightarrow> 0 < Max (count_list xs ` set xs)"
proof -
  assume "xs \<noteq> []"
  then obtain x where x: "x \<in> set xs" by (cases xs) auto
  then have "count_list xs x \<noteq> 0" by (simp add: count_list_0_iff)
  then have "0 < count_list xs x" by simp
  moreover have "count_list xs x \<le> Max (count_list xs ` set xs)"
    using x by (intro Max_ge) auto
  ultimately show ?thesis by linarith
qed

lemma keys_at_limit:
  "fst ` set (at_limit limit (value_counts xs)) = {v \<in> set xs. count_list xs v = limit}"
  unfolding at_limit_def keys_filter_value_counts by simp

lemma keys_at_limit_or_above:
  assumes "xs \<noteq> []"
  shows "fst ` set (at_limit_or_above limit (value_counts xs)) =
           (if list_ex (\<lambda>v. limit \<le> count_list xs v) xs
            then {v \<in> set xs. limit \<le> count_list xs v}
            else {v \<in> set xs. count_list xs v = Max (count_list xs ` set xs)})"
proof -
  have e: "(filter (\<lambda>p. limit \<le> snd p) (value_counts xs) = [])
      = (\<not> list_ex (\<lambda>v. limit \<le> count_list xs v) xs)"
    by (auto simp: filter_empty_conv set_value_counts list_ex_iff)
  show ?thesis
    unfolding at_limit_or_above_def Let_def e max_count_value_counts [OF assms]
    using max_count_pos [OF assms]
    by (simp add: keys_filter_value_counts del: set_filter)
qed

lemma counts_in_value_counts:
  "(v, c) \<in> set (value_counts xs) \<Longrightarrow> c = count_list xs v"
  by (auto simp: set_value_counts)

lemma length_at_limit:
  "length (at_limit limit (value_counts xs)) = card {v \<in> set xs. count_list xs v = limit}"
proof -
  have d: "distinct (map fst (at_limit limit (value_counts xs)))"
    unfolding at_limit_def by (rule distinct_map_filter) (rule distinct_keys_value_counts)
  have "card (fst ` set (at_limit limit (value_counts xs))) = length (map fst (at_limit limit (value_counts xs)))"
    using distinct_card [OF d] by simp
  then show ?thesis by (simp add: keys_at_limit)
qed

lemma col_nonempty: "\<not> empty_frame df \<Longrightarrow> col df c \<noteq> []"
  by (simp add: empty_frame_def col_def)

lemma cardinality_rows_value_counts:
  assumes "ids \<noteq> []"
  shows "cardinality_rows sh limit audit_metric incons_metric (value_counts ids) =
           [add_row ''Cardinality Audit'' ''Cardinality'' audit_metric
              (VInt (int (Max (count_list ids ` set ids))))
              (count_items sh (at_limit_or_above limit (value_counts ids))),
            add_row ''Cardinality Inconsistencies'' ''Cardinality'' incons_metric
              (VInt (int (card {v \<in> set ids. count_list ids v = limit})))
              (count_items sh (at_limit limit (value_counts ids)))]"
  by (simp add: cardinality_rows_def max_count_value_counts [OF assms] len_def length_at_limit)

lemma counts_value_counts:
  "list_all (\<lambda>p. snd p = count_list ids (fst p)) (value_counts ids)"
  by (auto simp: list_all_iff set_value_counts)


lemma resolve_17:
  "resolve_column_case_insensitive nr_rel_17 [''NRCellCUId'', ''NRCellId'', ''CellId'']
     = Some ''NRCellCUId''"
  by (simp add: nr_rel_17_def py_lower_def lower_char_def)

lemma col_17:
  "col nr_rel_17 ''NRCellCUId'' =
     [CStr ''C1'', CStr ''C1'', CStr ''C1'', CStr ''C1'', CStr ''C1'', CStr ''C1'', CStr ''C1'',
      CStr ''C1'', CStr ''C1'', CStr ''C1'', CStr ''C1'', CStr ''C1'', CStr ''C1'', CStr ''C1'',
      CStr ''C1'', CStr ''C1'', CStr ''C1'', CStr ''C2'']"
  by (simp add: nr_rel_17_def col_def cell_at_def)

lemma value_counts_17:
  "value_counts
     [CStr ''C1'', CStr ''C1'', CStr ''C1'', CStr ''C1'', CStr ''C1'', CStr ''C1'', CStr ''C1'',
      CStr ''C1'', CStr ''C1'', CStr ''C1'', CStr ''C1'', CStr ''C1'', CStr ''C1'', CStr ''C1'',
      CStr ''C1'', CStr ''C1'', CStr ''C1'', CStr ''C2''] = [(CStr ''C1'', 17), (CStr ''C2'', 1)]"
  by (simp add: value_counts_def unique_def)


section \<open>EndcDistrProfile (C8)\<close>

lemma set_endc_nodes:
  "set (endc_nodes msk work) = {n. \<exists>s. (n, s) \<in> set work \<and> msk s}"
  by (force simp: endc_nodes_def)

lemma endc_nodes_sorted: "sorted (endc_nodes msk work) \<and> distinct (endc_nodes msk work)"
  by (simp add: endc_nodes_def)

lemma new_pair_consistent: "mask_new_pair cfg s \<Longrightarrow> \<not> mask_inconsistent cfg s"
  by (simp add: mask_new_pair_def mask_inconsistent_def)

lemma cfg2_fields: "old_arfcn cfg2 = 653952" "new_arfcn cfg2 = 648672" "n77b_ssb cfg2 = 660001"
  by (simp_all add: cfg2_def)

lemma str_int_cfg2:
  "str_int 653952 = ''653952''" "str_int 648672 = ''648672''" "str_int 660001 = ''660001''"
  by (simp_all add: str_int_def string_of_nat.simps digit_char_def)

lemma extract_both:
  "extract_sync_frequencies spec_env
     ''GUtranSyncSignalFrequency=648672-30 GUtranSyncSignalFrequency=660001-30''
     = [''648672'', ''30'', ''660001'', ''30'']"
  by (simp add: spec_env_def spec_extract_sync_frequencies_def is_digit_def)

lemma extract_old:
  "extract_sync_frequencies spec_env ''GUtranSyncSignalFrequency=653952-30'' = [''653952'', ''30'']"
  by (simp add: spec_env_def spec_extract_sync_frequencies_def is_digit_def)

lemma resolve_endc:
  "resolve_column_case_insensitive endc_two [''NodeId''] = Some ''NodeId''"
  "resolve_column_case_insensitive endc_two [''gUtranFreqRef''] = Some ''gUtranFreqRef''"
  "resolve_column_case_insensitive endc_one [''NodeId''] = Some ''NodeId''"
  "resolve_column_case_insensitive endc_one [''gUtranFreqRef''] = Some ''gUtranFreqRef''"
  by (simp_all add: endc_two_def endc_one_def py_lower_def lower_char_def)

lemma endc_work_two:
  "endc_work spec_env endc_two ''NodeId'' ''gUtranFreqRef'' =
     [(''N1'', [''648672'', ''30'', ''660001'', ''30'']), (''N1'', [''653952'', ''30''])]"
  by (simp add: endc_work_def endc_two_def col_def cell_at_def extract_both extract_old)

lemma endc_work_one:
  "endc_work spec_env endc_one ''NodeId'' ''gUtranFreqRef'' =
     [(''N1'', [''648672'', ''30'', ''660001'', ''30''])]"
  by (simp add: endc_work_def endc_one_def col_def cell_at_def extract_both)

lemma masks_both:
  "mask_new_pair cfg2 [''648672'', ''30'', ''660001'', ''30'']"
  "\<not> mask_inconsistent cfg2 [''648672'', ''30'', ''660001'', ''30'']"
  "\<not> mask_old_pair cfg2 [''648672'', ''30'', ''660001'', ''30'']"
  by (simp_all add: mask_new_pair_def mask_inconsistent_def mask_old_pair_def cfg2_fields
      str_int_cfg2)

lemma masks_old:
  "\<not> mask_new_pair cfg2 [''653952'', ''30'']"
  "mask_inconsistent cfg2 [''653952'', ''30'']"
  "\<not> mask_old_pair cfg2 [''653952'', ''30'']"
  by (simp_all add: mask_new_pair_def mask_inconsistent_def mask_old_pair_def cfg2_fields
      str_int_cfg2)

text \<open>
  C8 as stated fails: the rows of the report list nodes, and a node is listed when one of
  its rows satisfies the mask. Here the first row of the node N1 embeds the new ARFCN and
  the N77B SSB, the second row embeds neither the N77B SSB nor the new ARFCN: N1 is counted
  in the new+N77B row and in the inconsistencies row as well.
\<close>

theorem endc_node_counted_by_other_row:
  "rows endc_two ! 0 = [CStr ''N1'', CStr ''GUtranSyncSignalFrequency=648672-30 GUtranSyncSignalFrequency=660001-30'']
   \<and> str_int (new_arfcn cfg2) \<in> set (extract_sync_frequencies spec_env
        ''GUtranSyncSignalFrequency=648672-30 GUtranSyncSignalFrequency=660001-30'')
   \<and> str_int (n77b_ssb cfg2) \<in> set (extract_sync_frequencies spec_env
        ''GUtranSyncSignalFrequency=648672-30 GUtranSyncSignalFrequency=660001-30'')
   \<and> process_endc_distr_profile spec_env cfg2 (Frame endc_two) =
     [add_row ''EndcDistrProfile Audit'' ''EndcDistrProfile''
        ''Nodes with gUtranFreqRef containing 653952 and 660001 in EndcDistrProfile'' (VInt 0) '''',
      add_row ''EndcDistrProfile Audit'' ''EndcDistrProfile''
        ''Nodes with gUtranFreqRef containing 648672 and 660001 in EndcDistrProfile'' (VInt 1) ''N1'',
      add_row ''EndcDistrProfile Inconsistencies'' ''EndcDistrProfile''
        ''Nodes with gUtranFreqRef not containing (653952 or 648672) together with 660001 in EndcDistrProfile''
        (VInt 1) ''N1'']"
proof -
  have p: "present (Frame endc_two) = Inr (Some endc_two)"
    by (simp add: empty_frame_def endc_two_def)
  have n: "endc_nodes (mask_old_pair cfg2) (endc_work spec_env endc_two ''NodeId'' ''gUtranFreqRef'') = []"
    "endc_nodes (mask_new_pair cfg2) (endc_work spec_env endc_two ''NodeId'' ''gUtranFreqRef'') = [''N1'']"
    "endc_nodes (mask_inconsistent cfg2) (endc_work spec_env endc_two ''NodeId'' ''gUtranFreqRef'') = [''N1'']"
    by (simp_all add: endc_work_two endc_nodes_def masks_both masks_old unique_def)
  have r: "process_endc_distr_profile spec_env cfg2 (Frame endc_two) =
      endc_distr_profile_rows spec_env cfg2 endc_two ''NodeId'' ''gUtranFreqRef''"
    by (simp add: process_endc_distr_profile_def p resolve_endc
        del: present.simps resolve_column_case_insensitive.simps)
  have a: "rows endc_two ! 0 =
      [CStr ''N1'', CStr ''GUtranSyncSignalFrequency=648672-30 GUtranSyncSignalFrequency=660001-30'']"
    by (simp add: endc_two_def)
  have b: "str_int (new_arfcn cfg2) \<in> set (extract_sync_frequencies spec_env
        ''GUtranSyncSignalFrequency=648672-30 GUtranSyncSignalFrequency=660001-30'')"
    "str_int (n77b_ssb cfg2) \<in> set (extract_sync_frequencies spec_env
        ''GUtranSyncSignalFrequency=648672-30 GUtranSyncSignalFrequency=660001-30'')"
    by (simp_all add: extract_both cfg2_fields str_int_cfg2)
  have c: "endc_distr_profile_rows spec_env cfg2 endc_two ''NodeId'' ''gUtranFreqRef'' =
     [add_row ''EndcDistrProfile Audit'' ''EndcDistrProfile''
        ''Nodes with gUtranFreqRef containing 653952 and 660001 in EndcDistrProfile'' (VInt 0) '''',
      add_row ''EndcDistrProfile Audit'' ''EndcDistrProfile''
        ''Nodes with gUtranFreqRef containing 648672 and 660001 in EndcDistrProfile'' (VInt 1) ''N1'',
      add_row ''EndcDistrProfile Inconsistencies'' ''EndcDistrProfile''
        ''Nodes with gUtranFreqRef not containing (653952 or 648672) together with 660001 in EndcDistrProfile''
        (VInt 1) ''N1'']"
    by (simp add: endc_distr_profile_rows_def Let_def n len_def cfg2_fields str_int_cfg2)
  show ?thesis
    unfolding r by (intro conjI) (rule a, rule b(1), rule b(2), rule c)
qed

text \<open>
  C8, amended. With \<open>work\<close> the rows of the table as pairs of the node and the
  frequency strings extracted from its reference: a node is listed in the old+N77B row iff
  one of its rows has the old ARFCN and the N77B SSB among its frequencies, in the new+N77B
  row iff one of its rows has the new ARFCN and the N77B SSB, and in the inconsistencies
  row iff one of its rows has neither the old nor the new ARFCN, or lacks the N77B SSB.
  A node all of whose rows embed the new ARFCN and the N77B SSB is listed in the new+N77B
  row and not in the inconsistencies row.
\<close>

theorem endc_nodes_listed:
  assumes "present t = Inr (Some df)"
    and "resolve_column_case_insensitive df [''NodeId''] = Some node_col_edp"
    and "node_col_edp \<noteq> []"
    and "resolve_column_case_insensitive df [''gUtranFreqRef''] = Some ref_col"
    and "ref_col \<noteq> []"
    and "work = endc_work e df node_col_edp ref_col"
    and "old_nodes = endc_nodes (mask_old_pair cfg) work"
    and "new_nodes = endc_nodes (mask_new_pair cfg) work"
    and "bad_nodes = endc_nodes (mask_inconsistent cfg) work"
  shows "process_endc_distr_profile e cfg t =
           [add_row ''EndcDistrProfile Audit'' ''EndcDistrProfile''
              (''Nodes with gUtranFreqRef containing '' @ str_int (old_arfcn cfg) @ '' and ''
                 @ str_int (n77b_ssb cfg) @ '' in EndcDistrProfile'')
              (VInt (int (length old_nodes))) (join '', '' old_nodes),
            add_row ''EndcDistrProfile Audit'' ''EndcDistrProfile''
              (''Nodes with gUtranFreqRef containing '' @ str_int (new_arfcn cfg) @ '' and ''
                 @ str_int (n77b_ssb cfg) @ '' in EndcDistrProfile'')
              (VInt (int (length new_nodes))) (join '', '' new_nodes),
            add_row ''EndcDistrProfile Inconsistencies'' ''EndcDistrProfile''
              (''Nodes with gUtranFreqRef not containing ('' @ str_int (old_arfcn cfg) @ '' or ''
                 @ str_int (new_arfcn cfg) @ '') together with '' @ str_int (n77b_ssb cfg)
                 @ '' in EndcDistrProfile'')
              (VInt (int (length bad_nodes))) (join '', '' bad_nodes)]
         \<and> work = zip (map py_str (col df node_col_edp))
                    (map (\<lambda>v. extract_sync_frequencies e (py_str v)) (col df ref_col))
         \<and> set old_nodes =
             {n. \<exists>s. (n, s) \<in> set work
                  \<and> str_int (old_arfcn cfg) \<in> set s \<and> str_int (n77b_ssb cfg) \<in> set s}
         \<and> set new_nodes =
             {n. \<exists>s. (n, s) \<in> set work
                  \<and> str_int (new_arfcn cfg) \<in> set s \<and> str_int (n77b_ssb cfg) \<in> set s}
         \<and> set bad_nodes =
             {n. \<exists>s. (n, s) \<in> set work
                  \<and> ((str_int (old_arfcn cfg) \<notin> set s \<and> str_int (new_arfcn cfg) \<notin> set s)
                      \<or> str_int (n77b_ssb cfg) \<notin> set s)}
         \<and> sorted old_nodes \<and> distinct old_nodes \<and> sorted new_nodes \<and> distinct new_nodes
         \<and> sorted bad_nodes \<and> distinct bad_nodes
         \<and> ((\<exists>s. (n, s) \<in> set work)
              \<and> (\<forall>s. (n, s) \<in> set work \<longrightarrow>
                    str_int (new_arfcn cfg) \<in> set s \<and> str_int (n77b_ssb cfg) \<in> set s)
             \<longrightarrow> n \<in> set new_nodes \<and> n \<notin> set bad_nodes)"
proof -
  have p: "process_endc_distr_profile e cfg t = endc_distr_profile_rows e cfg df node_col_edp ref_col"
    using assms(1-5) by (simp add: process_endc_distr_profile_def)
  have r: "process_endc_distr_profile e cfg t =
           [add_row ''EndcDistrProfile Audit'' ''EndcDistrProfile''
              (''Nodes with gUtranFreqRef containing '' @ str_int (old_arfcn cfg) @ '' and ''
                 @ str_int (n77b_ssb cfg) @ '' in EndcDistrProfile'')
              (VInt (int (length old_nodes))) (join '', '' old_nodes),
            add_row ''EndcDistrProfile Audit'' ''EndcDistrProfile''
              (''Nodes with gUtranFreqRef containing '' @ str_int (new_arfcn cfg) @ '' and ''
                 @ str_int (n77b_ssb cfg) @ '' in EndcDistrProfile'')
              (VInt (int (length new_nodes))) (join '', '' new_nodes),
            add_row ''EndcDistrProfile Inconsistencies'' ''EndcDistrProfile''
              (''Nodes with gUtranFreqRef not containing ('' @ str_int (old_arfcn cfg) @ '' or ''
                 @ str_int (new_arfcn cfg) @ '') together with '' @ str_int (n77b_ssb cfg)
                 @ '' in EndcDistrProfile'')
              (VInt (int (length bad_nodes))) (join '', '' bad_nodes)]"
    unfolding p using assms(6-9) by (simp add: endc_distr_profile_rows_def Let_def len_def)
  have w: "work = zip (map py_str (col df node_col_edp))
                    (map (\<lambda>v. extract_sync_frequencies e (py_str v)) (col df ref_col))"
    using assms(6) by (simp add: endc_work_def)
  have so: "set old_nodes =
             {n. \<exists>s. (n, s) \<in> set work
                  \<and> str_int (old_arfcn cfg) \<in> set s \<and> str_int (n77b_ssb cfg) \<in> set s}"
    unfolding assms(7) set_endc_nodes by (simp add: mask_old_pair_def)
  have sn: "set new_nodes =
             {n. \<exists>s. (n, s) \<in> set work
                  \<and> str_int (new_arfcn cfg) \<in> set s \<and> str_int (n77b_ssb cfg) \<in> set s}"
    unfolding assms(8) set_endc_nodes by (simp add: mask_new_pair_def)
  have sb: "set bad_nodes =
             {n. \<exists>s. (n, s) \<in> set work
                  \<and> ((str_int (old_arfcn cfg) \<notin> set s \<and> str_int (new_arfcn cfg) \<notin> set s)
                      \<or> str_int (n77b_ssb cfg) \<notin> set s)}"
    unfolding assms(9) set_endc_nodes by (simp add: mask_inconsistent_def)
  have sd: "sorted old_nodes \<and> distinct old_nodes \<and> sorted new_nodes \<and> distinct new_nodes
         \<and> sorted bad_nodes \<and> distinct bad_nodes"
    using assms(7-9) endc_nodes_sorted by simp
  have ip: "(\<exists>s. (n, s) \<in> set work)
              \<and> (\<forall>s. (n, s) \<in> set work \<longrightarrow>
                    str_int (new_arfcn cfg) \<in> set s \<and> str_int (n77b_ssb cfg) \<in> set s)
             \<longrightarrow> n \<in> set new_nodes \<and> n \<notin> set bad_nodes"
    unfolding sn sb by blast
  from r w so sn sb sd ip show ?thesis by (simp only: simp_thms)
qed

theorem endc_nodes_listed_witness:
  "process_endc_distr_profile spec_env cfg2 (Frame endc_one) =
     [add_row ''EndcDistrProfile Audit'' ''EndcDistrProfile''
        ''Nodes with gUtranFreqRef containing 653952 and 660001 in EndcDistrProfile'' (VInt 0) '''',
      add_row ''EndcDistrProfile Audit'' ''EndcDistrProfile''
        ''Nodes with gUtranFreqRef containing 648672 and 660001 in EndcDistrProfile'' (VInt 1) ''N1'',
      add_row ''EndcDistrProfile Inconsistencies'' ''EndcDistrProfile''
        ''Nodes with gUtranFreqRef not containing (653952 or 648672) together with 660001 in EndcDistrProfile''
        (VInt 0) '''']"
proof -
  have p: "present (Frame endc_one) = Inr (Some endc_one)"
    by (simp add: empty_frame_def endc_one_def)
  have n: "endc_nodes (mask_old_pair cfg2) (endc_work spec_env endc_one ''NodeId'' ''gUtranFreqRef'') = []"
    "endc_nodes (mask_new_pair cfg2) (endc_work spec_env endc_one ''NodeId'' ''gUtranFreqRef'') = [''N1'']"
    "endc_nodes (mask_inconsistent cfg2) (endc_work spec_env endc_one ''NodeId'' ''gUtranFreqRef'') = []"
    by (simp_all add: endc_work_one endc_nodes_def masks_both unique_def)
  from endc_nodes_listed [OF p resolve_endc(3) _ resolve_endc(4) _ refl refl refl refl,
      where cfg = cfg2 and e = spec_env and n = "''N1''"]
  have "process_endc_distr_profile spec_env cfg2 (Frame endc_one) =
           [add_row ''EndcDistrProfile Audit'' ''EndcDistrProfile''
              (''Nodes with gUtranFreqRef containing '' @ str_int (old_arfcn cfg2) @ '' and ''
                 @ str_int (n77b_ssb cfg2) @ '' in EndcDistrProfile'')
              (VInt (int (length (endc_nodes (mask_old_pair cfg2) (endc_work spec_env endc_one ''NodeId'' ''gUtranFreqRef'')))))
              (join '', '' (endc_nodes (mask_old_pair cfg2) (endc_work spec_env endc_one ''NodeId'' ''gUtranFreqRef''))),
            add_row ''EndcDistrProfile Audit'' ''EndcDistrProfile''
              (''Nodes with gUtranFreqRef containing '' @ str_int (new_arfcn cfg2) @ '' and ''
                 @ str_int (n77b_ssb cfg2) @ '' in EndcDistrProfile'')
              (VInt (int (length (endc_nodes (mask_new_pair cfg2) (endc_work spec_env endc_one ''NodeId'' ''gUtranFreqRef'')))))
              (join '', '' (endc_nodes (mask_new_pair cfg2) (endc_work spec_env endc_one ''NodeId'' ''gUtranFreqRef''))),
            add_row ''EndcDistrProfile Inconsistencies'' ''EndcDistrProfile''
              (''Nodes with gUtranFreqRef not containing ('' @ str_int (old_arfcn cfg2) @ '' or ''
                 @ str_int (new_arfcn cfg2) @ '') together with '' @ str_int (n77b_ssb cfg2)
                 @ '' in EndcDistrProfile'')
              (VInt (int (length (endc_nodes (mask_inconsistent cfg2) (endc_work spec_env endc_one ''NodeId'' ''gUtranFreqRef'')))))
              (join '', '' (endc_nodes (mask_inconsistent cfg2) (endc_work spec_env endc_one ''NodeId'' ''gUtranFreqRef'')))]"
    by blast
  then show ?thesis
    by (simp add: n cfg2_fields str_int_cfg2)
qed

section \<open>Parameter equality of the frequency relations (C3)\<close>

lemma valid_set_sorted_set: "valid_env e \<Longrightarrow> set (sorted_set e xs) = set xs"
  by (simp add: sorted_set_canonical)

lemma columns_select_rows [simp]: "columns (select_rows p df) = columns df"
  by (simp add: select_rows_def)

lemma rows_select_rows [simp]: "rows (select_rows p df) = filter p (rows df)"
  by (simp add: select_rows_def)

lemma columns_rows_where [simp]: "columns (rows_where c v df) = columns df"
  by (simp add: rows_where_def)

lemma rows_rows_where [simp]:
  "rows (rows_where c v df) = filter (\<lambda>r. cell_at r (index_of c (columns df)) = v) (rows df)"
  by (simp add: rows_where_def)

lemma columns_gu_rel_rows [simp]: "columns (gu_rel_rows full cc ac ex c) = columns full"
  by (simp add: gu_rel_rows_def)

lemma rows_gu_rel_rows:
  "rows (gu_rel_rows full cc ac ex c) =
     filter (\<lambda>r. cell_at r (index_of ac (columns full)) = CStr ex)
       (filter (\<lambda>r. py_str (cell_at r (index_of cc (columns full))) = c) (rows full))"
  by (simp add: gu_rel_rows_def)

lemma columns_clean [simp]:
  "columns (clean ig df) = sort (filter (\<lambda>c. c \<notin> set ig) (columns df))"
  by (simp add: clean_def sort_columns_def drop_duplicates_def drop_columns_def project_def)

lemma columns_gu_clean:
  "columns (gu_clean full cc ac ex c) =
     sort (filter (\<lambda>n. n \<notin> set (gu_cols_to_ignore full ac)) (columns full))"
  by (simp add: gu_clean_def)

lemma set_gu_cells_with:
  "set (gu_cells_with full cc ac ex) =
     {py_str (cell_at r (index_of cc (columns full))) | r.
        r \<in> set (rows full) \<and> cell_at r (index_of ac (columns full)) = CStr ex}"
  by (auto simp: gu_cells_with_def col_def)

lemma gu_rel_rows_nonempty:
  assumes "c \<in> set (gu_cells_with full cc ac ex)" and "columns full \<noteq> []"
  shows "\<not> empty_frame (gu_rel_rows full cc ac ex c)"
proof -
  from assms(1) obtain r where "r \<in> set (rows full)"
    "cell_at r (index_of ac (columns full)) = CStr ex"
    "py_str (cell_at r (index_of cc (columns full))) = c"
    unfolding set_gu_cells_with by blast
  then have "r \<in> set (rows (gu_rel_rows full cc ac ex c))"
    by (simp add: rows_gu_rel_rows)
  then have "rows (gu_rel_rows full cc ac ex c) \<noteq> []" by auto
  with assms(2) show ?thesis by (simp add: empty_frame_def)
qed

lemma set_gu_cells_both:
  assumes "valid_env e"
  shows "set (gu_cells_both e cfg full cc ac) =
           set (gu_cells_with full cc ac (str_int (old_arfcn cfg) @ ''-30-20-0-1''))
           \<inter> set (gu_cells_with full cc ac (str_int (new_arfcn cfg) @ ''-30-20-0-1''))"
  by (auto simp: gu_cells_both_def sorted_inter_def valid_set_sorted_set [OF assms])

lemma gu_param_mismatch_iff:
  assumes "valid_env e" and "columns full \<noteq> []" and "c \<in> set (gu_cells_both e cfg full cc ac)"
  shows "gu_param_mismatch full cc ac (str_int (old_arfcn cfg) @ ''-30-20-0-1'')
           (str_int (new_arfcn cfg) @ ''-30-20-0-1'') c
         \<longleftrightarrow> rows (gu_clean full cc ac (str_int (old_arfcn cfg) @ ''-30-20-0-1'') c)
               \<noteq> rows (gu_clean full cc ac (str_int (new_arfcn cfg) @ ''-30-20-0-1'') c)"
proof -
  from assms(3) have
    o: "c \<in> set (gu_cells_with full cc ac (str_int (old_arfcn cfg) @ ''-30-20-0-1''))" and
    n: "c \<in> set (gu_cells_with full cc ac (str_int (new_arfcn cfg) @ ''-30-20-0-1''))"
    by (simp_all add: set_gu_cells_both [OF assms(1)])
  show ?thesis
    using gu_rel_rows_nonempty [OF o assms(2)] gu_rel_rows_nonempty [OF n assms(2)]
    by (simp add: gu_param_mismatch_def frame_equals_def columns_gu_clean)
qed

lemma set_gu_bad_cells_params:
  assumes "valid_env e" and "columns full \<noteq> []"
  shows "set (gu_bad_cells_params e cfg full cc ac) =
           {c \<in> set (gu_cells_both e cfg full cc ac).
              rows (gu_clean full cc ac (str_int (old_arfcn cfg) @ ''-30-20-0-1'') c)
                \<noteq> rows (gu_clean full cc ac (str_int (new_arfcn cfg) @ ''-30-20-0-1'') c)}"
  using gu_param_mismatch_iff [OF assms]
  by (auto simp: gu_bad_cells_params_def valid_set_sorted_set [OF assms(1)])

lemma columns_map_col [simp]: "columns (map_col g c df) = columns df"
  by (simp add: map_col_def)

lemma columns_gu_full [simp]: "columns (gu_full df nc ac cc) = columns df"
  by (simp add: gu_full_def astype_str_def)

lemma str_int_1: "str_int 1 = ''1''"
  by (simp add: str_int_def string_of_nat.simps digit_char_def)

lemma upt4: "[0..<4] = [0, 1, 2, 3]"
  by (simp add: upt_rec)

lemma gu_full_swapped:
  "gu_full gu_swapped ''NodeId'' ''GUtranFreqRelationId'' ''CellId'' = full_swapped"
  by (simp add: gu_full_def astype_str_def map_col_def gu_swapped_def full_swapped_def cell_at_def
      upt4 str_int_1)

lemma fields_swapped:
  "columns full_swapped = [''NodeId'', ''CellId'', ''GUtranFreqRelationId'', ''qOffsetFreq'']"
  "rows full_swapped =
     [[CStr ''N1'', CStr ''1'', CStr ''653952-30-20-0-1'', CInt 0],
      [CStr ''N2'', CStr ''1'', CStr ''653952-30-20-0-1'', CInt 0],
      [CStr ''N2'', CStr ''1'', CStr ''648672-30-20-0-1'', CInt 0],
      [CStr ''N1'', CStr ''1'', CStr ''648672-30-20-0-1'', CInt 0]]"
  by (simp_all add: full_swapped_def)

lemma ignore_swapped:
  "gu_cols_to_ignore full_swapped ''GUtranFreqRelationId'' =
     [''GUtranFreqRelationId'', ''GUtranFreqRelationId'']"
  by (simp add: gu_cols_to_ignore_def fields_swapped py_lower_def lower_char_def)

lemma rel_rows_swapped:
  "gu_rel_rows full_swapped ''CellId'' ''GUtranFreqRelationId'' ''653952-30-20-0-1'' ''1'' =
     \<lparr>columns = [''NodeId'', ''CellId'', ''GUtranFreqRelationId'', ''qOffsetFreq''],
      rows = [[CStr ''N1'', CStr ''1'', CStr ''653952-30-20-0-1'', CInt 0],
              [CStr ''N2'', CStr ''1'', CStr ''653952-30-20-0-1'', CInt 0]]\<rparr>"
  "gu_rel_rows full_swapped ''CellId'' ''GUtranFreqRelationId'' ''648672-30-20-0-1'' ''1'' =
     \<lparr>columns = [''NodeId'', ''CellId'', ''GUtranFreqRelationId'', ''qOffsetFreq''],
      rows = [[CStr ''N2'', CStr ''1'', CStr ''648672-30-20-0-1'', CInt 0],
              [CStr ''N1'', CStr ''1'', CStr ''648672-30-20-0-1'', CInt 0]]\<rparr>"
  by (simp_all add: gu_rel_rows_def rows_where_def select_rows_def cell_at_def full_swapped_def)

lemma clean_rows:
  "clean [''GUtranFreqRelationId'', ''GUtranFreqRelationId'']
     \<lparr>columns = [''NodeId'', ''CellId'', ''GUtranFreqRelationId'', ''qOffsetFreq''],
      rows = [[a, b, c, d], [a', b', c', d']]\<rparr> =
     \<lparr>columns = [''CellId'', ''NodeId'', ''qOffsetFreq''],
      rows = map (\<lambda>r. [r ! 1, r ! 0, r ! 2]) (unique [[a, b, d], [a', b', d']])\<rparr>"
proof -
  have d: "drop_columns [''GUtranFreqRelationId'', ''GUtranFreqRelationId'']
      \<lparr>columns = [''NodeId'', ''CellId'', ''GUtranFreqRelationId'', ''qOffsetFreq''],
       rows = [[a, b, c, d], [a', b', c', d']]\<rparr> =
      \<lparr>columns = [''NodeId'', ''CellId'', ''qOffsetFreq''], rows = [[a, b, d], [a', b', d']]\<rparr>"
    by (simp add: drop_columns_def project_def cell_at_def)
  have u: "\<forall>r \<in> set (unique [[a, b, d], [a', b', d']]). length r = 3"
    by simp
  have s: "sort [''NodeId'', ''CellId'', ''qOffsetFreq''] = [''CellId'', ''NodeId'', ''qOffsetFreq'']"
    by simp
  show ?thesis
    unfolding clean_def d
    using u by (simp add: drop_duplicates_def sort_columns_def project_def s cell_at_def)
qed

lemma clean_old_swapped:
  "gu_clean full_swapped ''CellId'' ''GUtranFreqRelationId'' ''653952-30-20-0-1'' ''1'' =
     \<lparr>columns = [''CellId'', ''NodeId'', ''qOffsetFreq''],
      rows = [[CStr ''1'', CStr ''N1'', CInt 0], [CStr ''1'', CStr ''N2'', CInt 0]]\<rparr>"
  by (simp add: gu_clean_def ignore_swapped rel_rows_swapped clean_rows unique_def)

lemma clean_new_swapped:
  "gu_clean full_swapped ''CellId'' ''GUtranFreqRelationId'' ''648672-30-20-0-1'' ''1'' =
     \<lparr>columns = [''CellId'', ''NodeId'', ''qOffsetFreq''],
      rows = [[CStr ''1'', CStr ''N2'', CInt 0], [CStr ''1'', CStr ''N1'', CInt 0]]\<rparr>"
  by (simp add: gu_clean_def ignore_swapped rel_rows_swapped clean_rows unique_def)

lemma cells_with_swapped:
  "gu_cells_with full_swapped ''CellId'' ''GUtranFreqRelationId'' ''653952-30-20-0-1'' = [''1'', ''1'']"
  "gu_cells_with full_swapped ''CellId'' ''GUtranFreqRelationId'' ''648672-30-20-0-1'' = [''1'', ''1'']"
  by (simp_all add: gu_cells_with_def col_def rows_where_def select_rows_def cell_at_def
      full_swapped_def)

lemma cells_both_swapped:
  "gu_cells_both spec_env cfg2 full_swapped ''CellId'' ''GUtranFreqRelationId'' = [''1'']"
  by (simp add: gu_cells_both_def cfg2_fields str_int_cfg2 cells_with_swapped sorted_inter_def
      sorted_set_def spec_env_def)

lemma gu_freq_rel_rows_shape:
  assumes "resolve_column_case_insensitive df
             [''EUtranCellFDDId'', ''EUtranCellId'', ''CellId'', ''GUCellId''] = Some cc"
    and "cc \<noteq> []"
  shows "length (gu_freq_rel_rows e cfg df nc ac) = 8"
    and "gu_freq_rel_rows e cfg df nc ac ! 7 =
           add_row ''LTE Frequency Inconsistences'' ''GUtranFreqRelation''
             (''LTE cells with mismatching params between GUtranFreqRelationId ''
                @ (str_int (old_arfcn cfg) @ ''-30-20-0-1'') @ '' and ''
                @ (str_int (new_arfcn cfg) @ ''-30-20-0-1'') @ '' in GUtranFreqRelation'')
             (VInt (int (length (gu_bad_cells_params e cfg (gu_full df nc ac cc) cc ac))))
             (join '', '' (gu_bad_cells_params e cfg (gu_full df nc ac cc) cc ac))"
  using assms
  by (simp_all add: gu_freq_rel_rows_def gu_freq_rel_cell_rows_def Let_def len_def nth_append)

lemma resolve_swapped:
  "resolve_column_case_insensitive gu_swapped [''NodeId''] = Some ''NodeId''"
  "resolve_column_case_insensitive gu_swapped [''GUtranFreqRelationId'', ''gUtranFreqRelationId'']
     = Some ''GUtranFreqRelationId''"
  "resolve_column_case_insensitive gu_swapped
     [''EUtranCellFDDId'', ''EUtranCellId'', ''CellId'', ''GUCellId''] = Some ''CellId''"
  by (simp_all add: gu_swapped_def py_lower_def lower_char_def)

lemma set_iter_spec_env: "set_iter spec_env = (\<lambda>xs. rev (remdups xs))"
  by (simp add: spec_env_def)

lemma mismatch_swapped:
  "gu_param_mismatch full_swapped ''CellId'' ''GUtranFreqRelationId'' ''653952-30-20-0-1''
     ''648672-30-20-0-1'' ''1''"
  by (simp add: gu_param_mismatch_def rel_rows_swapped clean_old_swapped clean_new_swapped
      empty_frame_def frame_equals_def)

lemma bad_swapped:
  "gu_bad_cells_params spec_env cfg2 full_swapped ''CellId'' ''GUtranFreqRelationId'' = [''1'']"
  by (simp add: gu_bad_cells_params_def cells_both_swapped cfg2_fields str_int_cfg2
      mismatch_swapped sorted_set_def set_iter_spec_env)

lemma present_swapped: "present (Frame gu_swapped) = Inr (Some gu_swapped)"
  by (simp add: empty_frame_def gu_swapped_def)




lemma parse_same:
  "parse_int_frequency spec_env (CStr ''653952'') = Some 653952"
  "parse_int_frequency spec_env (CStr ''648672'') = Some 648672"
  by (simp_all add: spec_env_def py_strip_def is_space_def is_digit_def nat_of_digits_def)

lemma n77_same:
  "is_n77_from_string spec_env (CStr ''653952'')"
  "is_n77_from_string spec_env (CStr ''648672'')"
  by (simp_all add: spec_env_def spec_is_n77_from_string_def py_strip_def is_space_def
      is_digit_def nat_of_digits_def)

lemma astype_same:
  "astype_str ''NRCellCUId'' (astype_str ''NodeId'' nr_same) = nr_same"
  by (simp add: astype_str_def map_col_def nr_same_def cell_at_def upt4)

lemma select_same:
  "select_rows (\<lambda>r. is_n77_from_string spec_env (cell_at r (index_of ''NRFreqRelationId'' (columns nr_same))))
     nr_same = nr_same"
  by (simp add: select_rows_def nr_same_def cell_at_def n77_same)

lemma col_same: "col nr_same ''NRFreqRelationId'' = [CStr ''653952'', CStr ''648672'']"
  by (simp add: col_def nr_same_def cell_at_def)

lemma nr_full_n77_same:
  "nr_full_n77 spec_env nr_same ''NodeId'' ''NRFreqRelationId'' ''NRCellCUId'' = full_n77_same"
  unfolding nr_full_n77_def Let_def astype_same select_same col_same
  by (simp add: parse_same set_col_def nr_same_def full_n77_same_def cell_at_def upt4)

lemma nr_ignore_same:
  "nr_cols_to_ignore full_n77_same ''NRFreqRelationId'' = [''NRFreqRelationId'', ''NRFreqRelationId'']"
  by (simp add: nr_cols_to_ignore_def full_n77_same_def py_lower_def lower_char_def)

lemma nr_old_new_rows_same:
  "rows_where ''_arfcn_int_'' (CInt 653952)
     (select_rows (\<lambda>r. py_str (cell_at r (index_of ''NRCellCUId'' (columns full_n77_same))) = ''C1'')
        full_n77_same) =
     \<lparr>columns = [''NodeId'', ''NRCellCUId'', ''NRFreqRelationId'', ''qOffsetFreq'', ''_arfcn_int_''],
      rows = [[CStr ''N1'', CStr ''C1'', CStr ''653952'', CInt 0, CInt 653952]]\<rparr>"
  "rows_where ''_arfcn_int_'' (CInt 648672)
     (select_rows (\<lambda>r. py_str (cell_at r (index_of ''NRCellCUId'' (columns full_n77_same))) = ''C1'')
        full_n77_same) =
     \<lparr>columns = [''NodeId'', ''NRCellCUId'', ''NRFreqRelationId'', ''qOffsetFreq'', ''_arfcn_int_''],
      rows = [[CStr ''N1'', CStr ''C1'', CStr ''648672'', CInt 0, CInt 648672]]\<rparr>"
  by (simp_all add: rows_where_def select_rows_def cell_at_def full_n77_same_def)

lemma nr_clean_one:
  "clean [''NRFreqRelationId'', ''NRFreqRelationId'']
     \<lparr>columns = [''NodeId'', ''NRCellCUId'', ''NRFreqRelationId'', ''qOffsetFreq'', ''_arfcn_int_''],
      rows = [[a, b, c, d, f]]\<rparr> =
     \<lparr>columns = [''NRCellCUId'', ''NodeId'', ''_arfcn_int_'', ''qOffsetFreq''],
      rows = [[b, a, f, d]]\<rparr>"
proof -
  have d: "drop_columns [''NRFreqRelationId'', ''NRFreqRelationId'']
      \<lparr>columns = [''NodeId'', ''NRCellCUId'', ''NRFreqRelationId'', ''qOffsetFreq'', ''_arfcn_int_''],
       rows = [[a, b, c, d, f]]\<rparr> =
      \<lparr>columns = [''NodeId'', ''NRCellCUId'', ''qOffsetFreq'', ''_arfcn_int_''], rows = [[a, b, d, f]]\<rparr>"
    by (simp add: drop_columns_def project_def cell_at_def)
  have s: "sort [''NodeId'', ''NRCellCUId'', ''qOffsetFreq'', ''_arfcn_int_'']
      = [''NRCellCUId'', ''NodeId'', ''_arfcn_int_'', ''qOffsetFreq'']"
    by simp
  show ?thesis
    unfolding clean_def d
    by (simp add: drop_duplicates_def sort_columns_def project_def s cell_at_def unique_def)
qed

text \<open>
  The comparison of the NRFreqRelation checker is of the same kind, on frames that also
  hold the added column \<^verbatim>\<open>_arfcn_int_\<close>, which is not among the ignored columns:
  the cell C1, whose old and new rows agree in every attribute of the table, is appended
  to \<^verbatim>\<open>bad_cells_params\<close>.
\<close>

lemma nr_helper_column_compared:
  "nr_param_mismatch cfg2
     (nr_full_n77 spec_env nr_same ''NodeId'' ''NRFreqRelationId'' ''NRCellCUId'') ''NRCellCUId''
     (nr_cols_to_ignore (nr_full_n77 spec_env nr_same ''NodeId'' ''NRFreqRelationId'' ''NRCellCUId'')
        ''NRFreqRelationId'') ''C1''"
  unfolding nr_full_n77_same nr_ignore_same nr_param_mismatch_def Let_def cfg2_fields
    nr_old_new_rows_same nr_clean_one
  by (simp add: empty_frame_def frame_equals_def)

section \<open>Determinism (C9)\<close>

text \<open>
  The audit is a function of its tables, its configuration and its helpers; the one thing
  that may differ between two runs of the Python code on the same inputs is the order in
  which a set is iterated. The report does not depend on it: every set is sorted before
  it is used, or only tested for membership.
\<close>

lemma canon_fields [simp]:
  "parse_int_frequency (canon e) = parse_int_frequency e"
  "is_n77_from_string (canon e) = is_n77_from_string e"
  "extract_sync_frequencies (canon e) = extract_sync_frequencies e"
  by (simp_all add: canon_def)

lemma canon_preds [simp]:
  "is_not_old_not_new (canon e) = is_not_old_not_new e"
  "is_new (canon e) = is_new e"
  "is_old (canon e) = is_old e"
  "has_value (canon e) = has_value e"
  "is_allowed_n77_ssb (canon e) = is_allowed_n77_ssb e"
  "is_allowed_n77_arfcn (canon e) = is_allowed_n77_arfcn e"
  by (intro ext, simp add: is_not_old_not_new_def is_new_def is_old_def has_value_def
      is_allowed_n77_ssb_def is_allowed_n77_arfcn_def)+

lemma canon_series [simp]:
  "series_only_not_old_not_new (canon e) = series_only_not_old_not_new e"
  by (intro ext) (simp add: series_only_not_old_not_new_def)

lemma canon_nodes_of [simp]:
  "old_nodes_of (canon e) = old_nodes_of e"
  "new_nodes_of (canon e) = new_nodes_of e"
  "not_old_not_new_nodes_of (canon e) = not_old_not_new_nodes_of e"
  by (intro ext, simp add: old_nodes_of_def new_nodes_of_def not_old_not_new_nodes_of_def)+

lemma canon_sorted_set:
  assumes "valid_env e"
  shows "sorted_set (canon e) = sorted_set e" and "sorted_pair_set (canon e) = sorted_pair_set e"
    and "sorted_inter (canon e) = sorted_inter e" and "sorted_diff (canon e) = sorted_diff e"
proof -
  have c: "sorted_set (canon e) xs = sort (remdups xs)"
    "sorted_pair_set (canon e) ys = sort (remdups ys)" for xs ys
    by (simp_all add: sorted_set_def sorted_pair_set_def canon_def)
  show a: "sorted_set (canon e) = sorted_set e"
    by (intro ext) (simp only: c sorted_set_canonical [OF assms])
  show "sorted_pair_set (canon e) = sorted_pair_set e"
    by (intro ext) (simp only: c sorted_pair_set_canonical [OF assms])
  show "sorted_inter (canon e) = sorted_inter e"
    by (intro ext) (simp add: sorted_inter_def a)
  show "sorted_diff (canon e) = sorted_diff e"
    by (intro ext) (simp add: sorted_diff_def a)
qed

lemma canon_nr_freq:
  assumes "valid_env e"
  shows "process_nr_freq (canon e) = process_nr_freq e"
proof -
  have "nr_freq_rows (canon e) = nr_freq_rows e"
    by (intro ext) (simp add: nr_freq_rows_def canon_sorted_set [OF assms] Let_def)
  then show ?thesis
    by (intro ext) (simp add: process_nr_freq_def Let_def split: sum.splits option.splits)
qed

lemma canon_nr_freq_rel:
  assumes "valid_env e"
  shows "process_nr_freq_rel (canon e) = process_nr_freq_rel e"
proof -
  have a: "nr_full_n77 (canon e) = nr_full_n77 e"
    by (intro ext) (simp add: nr_full_n77_def Let_def)
  have b: "nr_freq_rel_cell_rows (canon e) = nr_freq_rel_cell_rows e"
    by (intro ext) (simp add: nr_freq_rel_cell_rows_def a canon_sorted_set [OF assms] Let_def)
  have c: "nr_freq_rel_n77_work (canon e) = nr_freq_rel_n77_work e"
    by (intro ext) (simp add: nr_freq_rel_n77_work_def)
  have d: "nr_freq_rel_node_rows (canon e) = nr_freq_rel_node_rows e"
    by (intro ext) (simp add: nr_freq_rel_node_rows_def canon_sorted_set [OF assms] Let_def)
  have "nr_freq_rel_rows (canon e) = nr_freq_rel_rows e"
    by (intro ext) (simp add: nr_freq_rel_rows_def b c d Let_def)
  then show ?thesis
    by (intro ext) (simp add: process_nr_freq_rel_def Let_def split: sum.splits option.splits)
qed

lemma canon_nr_sector_carrier:
  assumes "valid_env e"
  shows "process_nr_sector_carrier (canon e) = process_nr_sector_carrier e"
proof -
  have "nr_sector_carrier_rows (canon e) = nr_sector_carrier_rows e"
    by (intro ext) (simp add: nr_sector_carrier_rows_def canon_sorted_set [OF assms] Let_def)
  then show ?thesis
    by (intro ext) (simp add: process_nr_sector_carrier_def Let_def split: sum.splits option.splits)
qed

lemma canon_nr_cell_du: "process_nr_cell_du (canon e) = process_nr_cell_du e"
proof -
  have "nr_cell_du_rows (canon e) = nr_cell_du_rows e"
    by (intro ext) (simp add: nr_cell_du_rows_def Let_def)
  then show ?thesis
    by (intro ext) (simp add: process_nr_cell_du_def Let_def split: sum.splits option.splits)
qed

lemma canon_freq_prio_nr: "process_freq_prio_nr (canon e) = process_freq_prio_nr e"
proof -
  have "freq_prio_nr_rows (canon e) = freq_prio_nr_rows e"
    by (intro ext) (simp add: freq_prio_nr_rows_def Let_def)
  then show ?thesis
    by (intro ext) (simp add: process_freq_prio_nr_def Let_def split: sum.splits option.splits)
qed

lemma canon_gu_sync_signal_freq:
  assumes "valid_env e"
  shows "process_gu_sync_signal_freq (canon e) = process_gu_sync_signal_freq e"
proof -
  have "gu_sync_signal_freq_rows (canon e) = gu_sync_signal_freq_rows e"
    by (intro ext) (simp add: gu_sync_signal_freq_rows_def canon_sorted_set [OF assms] Let_def)
  then show ?thesis
    by (intro ext) (simp add: process_gu_sync_signal_freq_def Let_def split: sum.splits option.splits)
qed

lemma canon_gu_freq_rel:
  assumes "valid_env e"
  shows "process_gu_freq_rel (canon e) = process_gu_freq_rel e"
proof -
  have a: "gu_cells_both (canon e) = gu_cells_both e"
    by (intro ext) (simp add: gu_cells_both_def canon_sorted_set [OF assms] Let_def)
  have b: "gu_bad_cells_params (canon e) = gu_bad_cells_params e"
    by (intro ext) (simp add: gu_bad_cells_params_def a canon_sorted_set [OF assms] Let_def)
  have c: "gu_freq_rel_cell_rows (canon e) = gu_freq_rel_cell_rows e"
    by (intro ext) (simp add: gu_freq_rel_cell_rows_def a b canon_sorted_set [OF assms] Let_def)
  have "gu_freq_rel_rows (canon e) = gu_freq_rel_rows e"
    by (intro ext) (simp add: gu_freq_rel_rows_def c canon_sorted_set [OF assms] Let_def)
  then show ?thesis
    by (intro ext) (simp add: process_gu_freq_rel_def Let_def split: sum.splits option.splits)
qed

lemma canon_endc_distr_profile:
  "process_endc_distr_profile (canon e) = process_endc_distr_profile e"
proof -
  have a: "endc_work (canon e) = endc_work e"
    by (intro ext) (simp add: endc_work_def)
  have "endc_distr_profile_rows (canon e) = endc_distr_profile_rows e"
    by (intro ext) (simp add: endc_distr_profile_rows_def a Let_def)
  then show ?thesis
    by (intro ext) (simp add: process_endc_distr_profile_def Let_def split: sum.splits option.splits)
qed

lemma canon_build_summary_audit:
  assumes "valid_env e"
  shows "build_summary_audit (canon e) cfg t = build_summary_audit e cfg t"
  by (simp add: build_summary_audit_def run_checkers_def canon_nr_freq [OF assms]
      canon_nr_freq_rel [OF assms] canon_nr_sector_carrier [OF assms] canon_nr_cell_du
      canon_freq_prio_nr canon_gu_sync_signal_freq [OF assms] canon_gu_freq_rel [OF assms]
      canon_endc_distr_profile)

lemma canon_eq:
  assumes "parse_int_frequency e1 = parse_int_frequency e2"
    and "is_n77_from_string e1 = is_n77_from_string e2"
    and "extract_sync_frequencies e1 = extract_sync_frequencies e2"
  shows "canon e1 = canon e2"
  using assms by (simp add: canon_def)

text \<open>
  C9. Two runs on the same tables and the same configuration, with the same helpers and
  with any two iteration orders of the sets, return the same report: the same rows in the
  same order.
\<close>

theorem build_summary_audit_deterministic:
  assumes "valid_env e1" and "valid_env e2"
    and "parse_int_frequency e1 = parse_int_frequency e2"
    and "is_n77_from_string e1 = is_n77_from_string e2"
    and "extract_sync_frequencies e1 = extract_sync_frequencies e2"
  shows "build_summary_audit e1 cfg t = build_summary_audit e2 cfg t"
proof -
  have "build_summary_audit e1 cfg t = build_summary_audit (canon e1) cfg t"
    by (simp add: canon_build_summary_audit [OF assms(1)])
  also have "\<dots> = build_summary_audit (canon e2) cfg t"
    by (simp add: canon_eq [OF assms(3-5)])
  also have "\<dots> = build_summary_audit e2 cfg t"
    by (simp add: canon_build_summary_audit [OF assms(2)])
  finally show ?thesis .
qed

theorem build_summary_audit_deterministic_witness:
  "set_iter spec_env [''a'', ''b''] = [''b'', ''a'']
   \<and> set_iter spec_env2 [''a'', ''b''] = [''a'', ''b'']
   \<and> build_summary_audit spec_env cfg1 (no_tables\<lparr>df_nr_freq_rel := Frame nr_rel_n1\<rparr>)
       = build_summary_audit spec_env2 cfg1 (no_tables\<lparr>df_nr_freq_rel := Frame nr_rel_n1\<rparr>)"
proof -
  have h: "parse_int_frequency spec_env = parse_int_frequency spec_env2"
    "is_n77_from_string spec_env = is_n77_from_string spec_env2"
    "extract_sync_frequencies spec_env = extract_sync_frequencies spec_env2"
    by (simp_all add: spec_env2_def)
  from build_summary_audit_deterministic [OF valid_spec_env valid_spec_env2 h]
  show ?thesis
    by (simp add: spec_env_def spec_env2_def)
qed

end
